theory Spec2Isabelle
  imports Complex_Main "HOL-Library.Multiset" "HOL-Library.Char_ord" "HOL-Library.List_Lexorder"
    "HOL-Library.Word"
begin

section \<open>Data model of the inventory backend\<close>

text \<open>
  The backend keeps its data in a relational store that the services reach through
  query calls. The store is a record of tables, each table a list of rows in storage
  order. Identifiers are strings, the quantity of a batch is an integer, and a date of the
  store is the time value of a JavaScript \<open>Date\<close>, the number of milliseconds since the
  epoch.
\<close>

record category =
  category_id :: string
  category_name :: string

record item =
  item_id :: string
  item_name :: string
  categoryId :: string
  deletedAt :: "int option"

record inventoryBatch =
  batch_id :: string
  itemId :: string
  quantity :: int
  expiryDate :: int
  batchNumber :: string

record inventoryTransaction =
  tx_itemId :: "string option"
  tx_batchId :: string
  changeType :: string
  quantityChange :: int
  referenceId :: string

record db =
  items :: "item list"
  categories :: "category list"
  inventoryBatches :: "inventoryBatch list"
  inventoryTransactions :: "inventoryTransaction list"

text \<open>An item as \<open>getAllItems\<close> returns it: the row, its category and the computed stock.\<close>

record itemView =
  view_id :: string
  view_name :: string
  view_category :: "category option"
  view_deletedAt :: "int option"
  currentStock :: int

section \<open>InventoryService.getAllItems\<close>

text \<open>
  The relation \<open>inventoryBatches\<close> included with the filter \<open>quantity: { gt: 0 }\<close>: the
  batches of the item that hold a positive quantity.
\<close>

definition includedBatches :: "db \<Rightarrow> item \<Rightarrow> inventoryBatch list" where
  "includedBatches d it =
     filter (\<lambda>b. itemId b = item_id it \<and> quantity b > 0) (inventoryBatches d)"

text \<open>\<open>item.inventoryBatches.reduce((sum, b) => sum + b.quantity, 0)\<close>\<close>

definition totalStock :: "inventoryBatch list \<Rightarrow> int" where
  "totalStock bs = foldl (\<lambda>sum b. sum + quantity b) 0 bs"

definition getAllItems :: "db \<Rightarrow> itemView list" where
  "getAllItems d =
     map (\<lambda>it. \<lparr> view_id = item_id it,
                 view_name = item_name it,
                 view_category = find (\<lambda>c. category_id c = categoryId it) (categories d),
                 view_deletedAt = deletedAt it,
                 currentStock = totalStock (includedBatches d it) \<rparr>)
         (filter (\<lambda>it. deletedAt it = None) (items d))"

text \<open>
  The stock of an item in the words of the specification, at the instant \<open>now\<close>: the sum
  of the quantities of its batches that hold a positive quantity and have not expired.
\<close>

definition nonExpiredStock :: "int \<Rightarrow> db \<Rightarrow> string \<Rightarrow> int" where
  "nonExpiredStock now d i =
     sum_list (map quantity
       (filter (\<lambda>b. itemId b = i \<and> quantity b > 0 \<and> now \<le> expiryDate b) (inventoryBatches d)))"

text \<open>The same sum without the test on the expiry date.\<close>

definition positiveStock :: "db \<Rightarrow> string \<Rightarrow> int" where
  "positiveStock d i =
     sum_list (map quantity
       (filter (\<lambda>b. itemId b = i \<and> quantity b > 0) (inventoryBatches d)))"

text \<open>A store with one item and one batch of five units that expired long ago.\<close>

definition expiredDb :: db where
  "expiredDb =
     \<lparr> items = [\<lparr> item_id = ''i1'', item_name = ''Rice'', categoryId = ''c1'',
                  deletedAt = None \<rparr>],
       categories = [],
       inventoryBatches = [\<lparr> batch_id = ''b1'', itemId = ''i1'', quantity = 5,
                              expiryDate = 0, batchNumber = ''B-1'' \<rparr>],
       inventoryTransactions = [] \<rparr>"

section \<open>JavaScript numbers and dates\<close>

text \<open>
  A JavaScript number as the inventory code meets it: \<open>NaN\<close>, an infinity, or a finite
  number with an integer value (\<open>Fin\<close>; the two zeros are one value). A finite number
  is a double, so an integer that needs more than 53 significant bits is rounded to the
  nearest double, ties to the even one, and to an infinity beyond the largest double.
\<close>

datatype jsNumber = NaN | PosInf | NegInf | Fin int

fun bitLength :: "nat \<Rightarrow> nat" where
  "bitLength n = (if n = 0 then 0 else Suc (bitLength (n div 2)))"

declare bitLength.simps [simp del]

text \<open>The nearest double of a natural number; \<open>None\<close> when it rounds to infinity.\<close>

definition roundNat :: "nat \<Rightarrow> nat option" where
  "roundNat m =
     (let e = bitLength m - 53;
          q = m div 2 ^ e;
          r = m mod 2 ^ e;
          q' = (if 2 ^ e < 2 * r \<or> (2 ^ e = 2 * r \<and> odd q) then q + 1 else q)
      in if 2 ^ 1024 \<le> q' * 2 ^ e then None else Some (q' * 2 ^ e))"

definition toNumber :: "int \<Rightarrow> jsNumber" where
  "toNumber i =
     (case roundNat (nat \<bar>i\<bar>) of
        None \<Rightarrow> if i < 0 then NegInf else PosInf
      | Some v \<Rightarrow> Fin (if i < 0 then - int v else int v))"

text \<open>\<open>a + b\<close> on numbers: the exact sum of two finite numbers, rounded.\<close>

fun jsAdd :: "jsNumber \<Rightarrow> jsNumber \<Rightarrow> jsNumber" where
  "jsAdd (Fin a) (Fin b) = toNumber (a + b)"
| "jsAdd NaN y = NaN"
| "jsAdd x NaN = NaN"
| "jsAdd PosInf NegInf = NaN"
| "jsAdd NegInf PosInf = NaN"
| "jsAdd PosInf y = PosInf"
| "jsAdd NegInf y = NegInf"
| "jsAdd x PosInf = PosInf"
| "jsAdd x NegInf = NegInf"

text \<open>\<open>x < 0\<close> on a number; a comparison with \<open>NaN\<close> is false.\<close>

fun jsNegative :: "jsNumber \<Rightarrow> bool" where
  "jsNegative (Fin n) = (n < 0)"
| "jsNegative NegInf = True"
| "jsNegative x = False"

text \<open>
  The time value of a \<open>Date\<close> is a number of milliseconds since the epoch of magnitude at
  most 8.64e15; outside this range the \<open>Date\<close> is invalid (\<open>None\<close>).
\<close>

definition msPerDay :: int where
  "msPerDay = 86400000"

definition maxTime :: int where
  "maxTime = 8640000000000000"

definition timeClip :: "int \<Rightarrow> int option" where
  "timeClip t = (if maxTime < \<bar>t\<bar> then None else Some t)"

text \<open>
  The time zone of the server: \<open>zone t True\<close> is the offset of local time from UTC at
  the UTC instant \<open>t\<close>, \<open>zone t False\<close> the offset at the local time \<open>t\<close>
  (\<open>LocalTZA\<close> of the language definition). For UTC both are 0.
\<close>

type_synonym zone = "int \<Rightarrow> bool \<Rightarrow> int"

definition utcZone :: zone where
  "utcZone t isUTC = 0"

text \<open>
  \<open>targetDate.setDate(targetDate.getDate() + days)\<close> on the date with time value \<open>t\<close>:
  the date moves by \<open>days\<close> calendar days of local time, keeping the local time of day,
  and is invalid when \<open>t\<close> is, when \<open>days\<close> is not finite, or when the result leaves
  the range of \<open>Date\<close>.
\<close>

definition addDays :: "zone \<Rightarrow> int \<Rightarrow> jsNumber \<Rightarrow> int option" where
  "addDays zone t days =
     (case timeClip t of
        None \<Rightarrow> None
      | Some t0 \<Rightarrow>
          (case days of
             Fin n \<Rightarrow>
               let localTime = t0 + zone t0 True;
                   newDate = localTime + n * msPerDay
               in timeClip (newDate - zone newDate False)
           | _ \<Rightarrow> None))"

text \<open>A zone whose clocks go forward by one hour at instant 1000.\<close>

definition summerZone :: zone where
  "summerZone t isUTC = (if t < 1000 then 0 else 3600000)"

section \<open>InventoryService.getExpiringBatches\<close>

text \<open>The query client refuses a bound that is an invalid \<open>Date\<close>, and the service rethrows.\<close>

datatype serviceError = InvalidDate

text \<open>
  The function reads the clock twice: \<open>now1\<close> is the reading that \<open>targetDate\<close> starts
  from, \<open>now2\<close> the later reading used as the lower bound of the query. The query keeps
  the batches with a positive quantity whose expiry date lies between the two bounds,
  joins each with its item (\<open>include: { item: true }\<close>) and orders them by expiry date.
\<close>

definition getExpiringBatches ::
  "zone \<Rightarrow> db \<Rightarrow> int \<Rightarrow> int \<Rightarrow> jsNumber
   \<Rightarrow> serviceError + (inventoryBatch \<times> item option) list" where
  "getExpiringBatches zone d now1 now2 days =
     (case addDays zone now1 days of
        None \<Rightarrow> Inl InvalidDate
      | Some targetDate \<Rightarrow>
          (case timeClip now2 of
             None \<Rightarrow> Inl InvalidDate
           | Some lower \<Rightarrow>
               let batches = sort_key expiryDate
                     (filter (\<lambda>b. quantity b > 0 \<and> expiryDate b \<le> targetDate
                                  \<and> expiryDate b \<ge> lower)
                        (inventoryBatches d))
               in Inr (map (\<lambda>b. (b, find (\<lambda>it. item_id it = itemId b) (items d))) batches)))"

section \<open>InventoryService.allocateStockFEFO\<close>

record allocationEntry =
  batchId :: string
  qty :: int
  expiry :: int
  entry_batchNumber :: string

record allocationResult =
  feasible :: bool
  shortfall :: "int option"
  allocation :: "allocationEntry list"

text \<open>The query: the positive-quantity batches of the item, earliest expiry first.\<close>

definition fefoBatches :: "db \<Rightarrow> string \<Rightarrow> inventoryBatch list" where
  "fefoBatches d i =
     sort_key expiryDate (filter (\<lambda>b. itemId b = i \<and> quantity b > 0) (inventoryBatches d))"

text \<open>
  The \<open>for\<close> loop over the batches, with the variables \<open>remaining\<close> and \<open>allocation\<close> it
  updates; \<open>break\<close> returns them as they are.
\<close>

fun allocateLoop ::
  "inventoryBatch list \<Rightarrow> int \<Rightarrow> allocationEntry list \<Rightarrow> int \<times> allocationEntry list" where
  "allocateLoop [] remaining alloc = (remaining, alloc)"
| "allocateLoop (batch # rest) remaining alloc =
     (if remaining \<le> 0 then (remaining, alloc)
      else
        let takeQty = min (quantity batch) remaining
        in allocateLoop rest (remaining - takeQty)
             (alloc @ [\<lparr> batchId = batch_id batch, qty = takeQty,
                          expiry = expiryDate batch,
                          entry_batchNumber = batchNumber batch \<rparr>]))"

definition allocateStockFEFO :: "db \<Rightarrow> string \<Rightarrow> int \<Rightarrow> allocationResult" where
  "allocateStockFEFO d i qtyNeeded =
     (case allocateLoop (fefoBatches d i) qtyNeeded [] of
        (remaining, alloc) \<Rightarrow>
          if remaining > 0
          then \<lparr> feasible = False, shortfall = Some remaining, allocation = alloc \<rparr>
          else \<lparr> feasible = True, shortfall = None, allocation = alloc \<rparr>)"

text \<open>A store with three batches of one item, stored out of expiry order, and a batch of another item.\<close>

definition fefoDb :: db where
  "fefoDb =
     \<lparr> items = [\<lparr> item_id = ''i1'', item_name = ''Rice'', categoryId = ''c1'',
                  deletedAt = None \<rparr>],
       categories = [\<lparr> category_id = ''c1'', category_name = ''Grain'' \<rparr>],
       inventoryBatches =
         [\<lparr> batch_id = ''b3'', itemId = ''i1'', quantity = 4, expiryDate = 300,
            batchNumber = ''B-3'' \<rparr>,
          \<lparr> batch_id = ''b1'', itemId = ''i1'', quantity = 5, expiryDate = 100,
            batchNumber = ''B-1'' \<rparr>,
          \<lparr> batch_id = ''b9'', itemId = ''i2'', quantity = 7, expiryDate = 50,
            batchNumber = ''B-9'' \<rparr>,
          \<lparr> batch_id = ''b2'', itemId = ''i1'', quantity = 2, expiryDate = 200,
            batchNumber = ''B-2'' \<rparr>],
       inventoryTransactions = [] \<rparr>"

section \<open>Request values and parseInt\<close>

text \<open>
  A JavaScript string is a list of UTF-16 code units; \<open>js\<close> embeds an ASCII literal.
\<close>

type_synonym jsString = "nat list"

definition js :: "string \<Rightarrow> jsString" where
  "js s = map of_char s"

text \<open>
  A value of a request as the controllers receive it: a query parameter or a field of a
  JSON body may be absent (\<open>undefined\<close>), \<open>null\<close>, a boolean, a string, or a number. The
  numbers of this type are the integers from \<open>-2^53\<close> to \<open>2^53 - 1\<close>, the signed
  values of a 54-bit word; each is a double that prints as its decimal digits.
\<close>

datatype jsValue = Undefined | Null | Bool bool | Num "54 word" | Str jsString

fun digitsOf :: "nat \<Rightarrow> jsString" where
  "digitsOf n = (if n < 10 then [48 + n] else digitsOf (n div 10) @ [48 + n mod 10])"

declare digitsOf.simps [simp del]

text \<open>The string that \<open>parseInt\<close> makes of its argument before it reads it.\<close>

fun toStringJS :: "jsValue \<Rightarrow> jsString" where
  "toStringJS Undefined = js ''undefined''"
| "toStringJS Null = js ''null''"
| "toStringJS (Bool b) = (if b then js ''true'' else js ''false'')"
| "toStringJS (Num w) =
     (if sint w < 0 then 45 # digitsOf (nat (- sint w)) else digitsOf (nat (sint w)))"
| "toStringJS (Str s) = s"

text \<open>
  The white space that \<open>parseInt\<close> skips: tab, line feed, vertical tab, form feed,
  carriage return, space, no-break space, the other space separators, the line and
  paragraph separators and the byte order mark.
\<close>

definition isWhiteSpace :: "nat \<Rightarrow> bool" where
  "isWhiteSpace c =
     (c \<in> set [0x09, 0x0A, 0x0B, 0x0C, 0x0D, 0x20, 0xA0, 0x1680, 0x2028, 0x2029, 0x202F,
               0x205F, 0x3000, 0xFEFF]
      \<or> (0x2000 \<le> c \<and> c \<le> 0x200A))"

text \<open>The value of a code unit as a digit: \<open>0\<close> to \<open>9\<close>, then the letters of either case.\<close>

definition digitValue :: "nat \<Rightarrow> nat option" where
  "digitValue c =
     (if 48 \<le> c \<and> c \<le> 57 then Some (c - 48)
      else if 97 \<le> c \<and> c \<le> 122 then Some (c - 87)
      else if 65 \<le> c \<and> c \<le> 90 then Some (c - 55)
      else None)"

definition radixDigit :: "nat \<Rightarrow> nat \<Rightarrow> nat option" where
  "radixDigit R c =
     (case digitValue c of
        None \<Rightarrow> None
      | Some v \<Rightarrow> if v < R then Some v else None)"

text \<open>
  The longest prefix of digits, read as a number; \<open>None\<close> while no digit has been read.
\<close>

fun parseDigits :: "nat \<Rightarrow> jsString \<Rightarrow> nat option \<Rightarrow> nat option" where
  "parseDigits R [] acc = acc"
| "parseDigits R (c # cs) acc =
     (case radixDigit R c of
        None \<Rightarrow> acc
      | Some v \<Rightarrow> parseDigits R cs (Some (case acc of None \<Rightarrow> v | Some a \<Rightarrow> a * R + v)))"

text \<open>
  \<open>parseInt\<close> with no radix argument, as the language defines it: leading white space is
  skipped, a sign is read, a prefix \<open>0x\<close> selects radix 16, and the longest prefix of
  digits is read and rounded to a number; with no digit the result is \<open>NaN\<close>.
\<close>

definition parseInt :: "jsString \<Rightarrow> jsNumber" where
  "parseInt inputString =
     (let S = dropWhile isWhiteSpace inputString;
          sign = (if take 1 S = js ''-'' then - 1 else 1);
          S1 = (if take 1 S = js ''+'' \<or> take 1 S = js ''-'' then drop 1 S else S);
          hex = (take 2 S1 = js ''0x'' \<or> take 2 S1 = js ''0X'');
          R = (if hex then 16 else 10);
          S2 = (if hex then drop 2 S1 else S1)
      in case parseDigits R S2 None of
           None \<Rightarrow> NaN
         | Some m \<Rightarrow> toNumber (sign * int m))"

text \<open>\<open>v || dflt\<close> on a number: \<open>NaN\<close> and zero are falsy.\<close>

definition orElse :: "jsNumber \<Rightarrow> jsNumber \<Rightarrow> jsNumber" where
  "orElse v dflt = (if v = NaN \<or> v = Fin 0 then dflt else v)"

section \<open>InventoryController\<close>

text \<open>
  A response: the status code and the JSON body, which is either the error written by the
  \<open>catch\<close> branch or the result.
\<close>

record ('e, 'a) response =
  status :: nat
  body :: "'e + 'a"

definition json :: "'a \<Rightarrow> ('e, 'a) response" where
  "json x = \<lparr> status = 200, body = Inr x \<rparr>"

text \<open>
  The \<open>try\<close> and \<open>catch\<close> of \<open>getExpiring\<close> around the call of the service: the
  batches, or status 500 when the service throws.
\<close>

definition expiringResponse ::
  "serviceError + (inventoryBatch \<times> item option) list
   \<Rightarrow> (string, (inventoryBatch \<times> item option) list) response" where
  "expiringResponse result =
     (case result of
        Inr batches \<Rightarrow> json batches
      | Inl err \<Rightarrow> \<lparr> status = 500, body = Inl ''Failed to fetch alerts'' \<rparr>)"

definition getExpiring ::
  "zone \<Rightarrow> jsValue \<Rightarrow> db \<Rightarrow> int \<Rightarrow> int
   \<Rightarrow> (string, (inventoryBatch \<times> item option) list) response" where
  "getExpiring zone queryDays d now1 now2 =
     (let days = orElse (parseInt (toStringJS queryDays)) (Fin 7)
      in expiringResponse (getExpiringBatches zone d now1 now2 days))"

text \<open>
  The body of \<open>POST /inventory/adjust\<close>. The identifiers and the reason are strings and
  may be absent; \<open>quantityChange\<close> is kept as it arrives, since the controller passes it
  through \<open>parseInt\<close>.
\<close>

record adjustRequest =
  req_itemId :: "string option"
  req_batchId :: "string option"
  req_quantityChange :: jsValue
  req_reason :: "string option"

text \<open>
  The schema of the store is not among the source files. What it decides for
  \<open>adjustStock\<close> is a parameter: which numbers the quantity column of a batch holds,
  and which transaction records the store takes (the required fields and the references
  of a record, checked against the store as it is when the record is created).
\<close>

record schema =
  acceptsQuantity :: "int \<Rightarrow> bool"
  acceptsTransaction :: "db \<Rightarrow> inventoryTransaction \<Rightarrow> bool"

text \<open>
  What ends a transaction early: an \<open>Error\<close> thrown by the controller with its message,
  or the store client refusing a query or a write.
\<close>

datatype failure = Error string | StoreRefused

text \<open>\<open>findUnique({ where: { id } })\<close>; the client refuses an absent \<open>id\<close>.\<close>

definition findUnique :: "db \<Rightarrow> string \<Rightarrow> inventoryBatch option" where
  "findUnique d bid = find (\<lambda>b. batch_id b = bid) (inventoryBatches d)"

text \<open>
  \<open>update({ where: { id }, data: { quantity } })\<close>: the quantity must be a finite number
  that the column holds.
\<close>

definition updateQuantity :: "schema \<Rightarrow> string \<Rightarrow> jsNumber \<Rightarrow> db \<Rightarrow> failure + db" where
  "updateQuantity sch bid newQty d =
     (case newQty of
        Fin n \<Rightarrow>
          if acceptsQuantity sch n
          then Inr (d\<lparr> inventoryBatches :=
                        map (\<lambda>b. if batch_id b = bid then b\<lparr> quantity := n \<rparr> else b)
                          (inventoryBatches d) \<rparr>)
          else Inl StoreRefused
      | _ \<Rightarrow> Inl StoreRefused)"

definition createTransaction :: "schema \<Rightarrow> inventoryTransaction \<Rightarrow> db \<Rightarrow> failure + db" where
  "createTransaction sch t d =
     (if acceptsTransaction sch d t
      then Inr (d\<lparr> inventoryTransactions := inventoryTransactions d @ [t] \<rparr>)
      else Inl StoreRefused)"

text \<open>\<open>reason || 'MANUAL'\<close>: an absent or empty reason is falsy.\<close>

definition reasonOrManual :: "string option \<Rightarrow> string" where
  "reasonOrManual reason =
     (case reason of None \<Rightarrow> ''MANUAL'' | Some r \<Rightarrow> if r = [] then ''MANUAL'' else r)"

text \<open>The record that \<open>adjustStock\<close> asks the store to add to the transaction log.\<close>

definition adjustmentRecord :: "adjustRequest \<Rightarrow> string \<Rightarrow> int \<Rightarrow> inventoryTransaction" where
  "adjustmentRecord req bid change =
     \<lparr> tx_itemId = req_itemId req,
       tx_batchId = bid,
       changeType = ''ADJUSTMENT'',
       quantityChange = change,
       referenceId = reasonOrManual (req_reason req) \<rparr>"

text \<open>
  The callback given to \<open>prisma.$transaction\<close>, run on the store \<open>tx\<close>; it returns what
  it threw or returned, with the store as its writes left it. When
  \<open>parseInt(quantityChange)\<close> is \<open>NaN\<close>, so is \<open>newQty\<close>; the test \<open>newQty < 0\<close> is
  then false and the update is asked to store \<open>NaN\<close>. A record refused by the store
  makes \<open>create\<close> throw after the update has been made.
\<close>

definition adjustStockTx :: "schema \<Rightarrow> adjustRequest \<Rightarrow> db \<Rightarrow> (failure + int) \<times> db" where
  "adjustStockTx sch req tx =
     (case req_batchId req of
        None \<Rightarrow> (Inl StoreRefused, tx)
      | Some bid \<Rightarrow>
          (case findUnique tx bid of
             None \<Rightarrow> (Inl (Error ''Batch not found''), tx)
           | Some batch \<Rightarrow>
               let change = parseInt (toStringJS (req_quantityChange req));
                   newQty = jsAdd (toNumber (quantity batch)) change
               in if jsNegative newQty
                  then (Inl (Error ''Resulting quantity cannot be negative''), tx)
                  else
                    (case updateQuantity sch bid newQty tx of
                       Inl e \<Rightarrow> (Inl e, tx)
                     | Inr tx1 \<Rightarrow>
                         (case (change, newQty) of
                            (Fin c, Fin n) \<Rightarrow>
                              (case createTransaction sch (adjustmentRecord req bid c) tx1 of
                                 Inl e \<Rightarrow> (Inl e, tx1)
                               | Inr tx2 \<Rightarrow> (Inr n, tx2))
                          | _ \<Rightarrow> (Inl StoreRefused, tx1)))))"

text \<open>
  \<open>prisma.$transaction\<close>: the writes of the callback are kept when it returns and
  discarded when it throws.
\<close>

definition transaction :: "(db \<Rightarrow> (failure + 'a) \<times> db) \<Rightarrow> db \<Rightarrow> (failure + 'a) \<times> db" where
  "transaction f d =
     (case f d of
        (Inl e, _) \<Rightarrow> (Inl e, d)
      | (Inr r, d') \<Rightarrow> (Inr r, d'))"

definition adjustStock :: "schema \<Rightarrow> adjustRequest \<Rightarrow> db \<Rightarrow> (failure, int) response \<times> db" where
  "adjustStock sch req d =
     (case transaction (adjustStockTx sch req) d of
        (Inr newQty, d') \<Rightarrow> (json newQty, d')
      | (Inl e, d') \<Rightarrow> (\<lparr> status = 400, body = Inl e \<rparr>, d'))"

text \<open>
  A schema used as an example: the quantity column holds 32-bit signed integers, and a
  transaction record must name an item of the store.
\<close>

definition exampleSchema :: schema where
  "exampleSchema =
     \<lparr> acceptsQuantity = (\<lambda>n. - 2147483648 \<le> n \<and> n \<le> 2147483647),
       acceptsTransaction =
         (\<lambda>d t. case tx_itemId t of
                   None \<Rightarrow> False
                 | Some i \<Rightarrow> i \<in> set (map item_id (items d))) \<rparr>"

text \<open>A request to adjust a batch, with no reason given.\<close>

definition adjustReq :: "string option \<Rightarrow> string \<Rightarrow> jsValue \<Rightarrow> adjustRequest" where
  "adjustReq i bid change =
     \<lparr> req_itemId = i, req_batchId = Some bid, req_quantityChange = change,
       req_reason = None \<rparr>"

section \<open>The agent service: Forecaster\<close>

text \<open>
  The agent service (\<open>forecaster.py\<close>, \<open>supplier_ranker.py\<close>, \<open>decision_engine.py\<close>)
  is described by the specification and by the list of its tests; its code is not part of
  the source files. The definitions of this and the next two sections follow the
  specification. Demand and scores are real numbers, a day is a day number, and what the
  specification leaves to a statistical model or to configuration is a parameter.
\<close>

text \<open>
  Modelled from the spec: the data model of the forecaster (\<open>forecaster.py\<close> is
  missing): SalesRecord, ForecastResult with its method, the error taxonomy of section 7
  and the configuration options of section 6.
\<close>

datatype forecastMethod = MODEL | FALLBACK

datatype forecastError = InsufficientDataError | ModelTrainingError

record salesRecord =
  sale_itemId :: string
  saleDate :: int
  quantitySold :: real

record forecastResult =
  forecast_itemId :: string
  predictedDemand :: real
  forecast_method :: forecastMethod
  horizonDays :: int
  generatedAt :: int

record forecasterConfig =
  minHistoryDays :: nat
  defaultDailyDemand :: real

text \<open>
  Modelled from the spec: the clamp of \<open>Forecaster.predict\<close> (\<open>forecaster.py\<close> is
  missing). "Any negative predicted value is clamped to 0."
\<close>

definition clampDemand :: "real \<Rightarrow> real" where
  "clampDemand v = max 0 v"

text \<open>
  Modelled from the spec: the number of distinct days of a sales history
  (\<open>forecaster.py\<close> is missing), which the minimum-history threshold is compared with.
\<close>

definition distinctDays :: "salesRecord list \<Rightarrow> nat" where
  "distinctDays history = length (remdups (map saleDate history))"

text \<open>
  Modelled from the spec: the sufficient-data path of \<open>Forecaster.predict\<close>
  (\<open>forecaster.py\<close> is missing). With fewer distinct days than the threshold the data
  is insufficient; otherwise the time-series model \<open>fit\<close> is fitted and projected over
  the horizon, and \<open>fit\<close> answers \<open>None\<close> when fitting raises an error.
\<close>

definition tryModel ::
  "forecasterConfig \<Rightarrow> (salesRecord list \<Rightarrow> int \<Rightarrow> real option) \<Rightarrow> salesRecord list \<Rightarrow> int
   \<Rightarrow> forecastError + real" where
  "tryModel cfg fit history horizon =
     (if distinctDays history < minHistoryDays cfg then Inl InsufficientDataError
      else case fit history horizon of
             None \<Rightarrow> Inl ModelTrainingError
           | Some v \<Rightarrow> Inr v)"

text \<open>
  Modelled from the spec: the fallback path of \<open>Forecaster.predict\<close>
  (\<open>forecaster.py\<close> is missing). A moving average \<open>average\<close> of the daily demand over
  the available history, or the fixed default per day when the history is empty, projected
  over the horizon.
\<close>

definition fallback ::
  "forecasterConfig \<Rightarrow> (salesRecord list \<Rightarrow> real) \<Rightarrow> salesRecord list \<Rightarrow> int \<Rightarrow> real" where
  "fallback cfg average history horizon =
     (if history = [] then defaultDailyDemand cfg * real_of_int horizon
      else average history * real_of_int horizon)"

text \<open>
  Modelled from the spec: \<open>Forecaster.predict\<close> (\<open>forecaster.py\<close> is missing). The
  model path when it yields a value, the fallback path otherwise; the clamp on both.
\<close>

definition predict ::
  "forecasterConfig \<Rightarrow> (salesRecord list \<Rightarrow> int \<Rightarrow> real option) \<Rightarrow> (salesRecord list \<Rightarrow> real)
   \<Rightarrow> int \<Rightarrow> string \<Rightarrow> salesRecord list \<Rightarrow> int \<Rightarrow> forecastResult" where
  "predict cfg fit average now i salesHistory horizon =
     (case tryModel cfg fit salesHistory horizon of
        Inr v \<Rightarrow>
          \<lparr> forecast_itemId = i, predictedDemand = clampDemand v, forecast_method = MODEL,
            horizonDays = horizon, generatedAt = now \<rparr>
      | Inl e \<Rightarrow>
          \<lparr> forecast_itemId = i,
            predictedDemand = clampDemand (fallback cfg average salesHistory horizon),
            forecast_method = FALLBACK, horizonDays = horizon, generatedAt = now \<rparr>)"

text \<open>A configuration, a history of two days and two models used as examples.\<close>

definition exampleConfig :: forecasterConfig where
  "exampleConfig = \<lparr> minHistoryDays = 2, defaultDailyDemand = 1 \<rparr>"

definition exampleHistory :: "salesRecord list" where
  "exampleHistory =
     [\<lparr> sale_itemId = ''i1'', saleDate = 1, quantitySold = 9 \<rparr>,
      \<lparr> sale_itemId = ''i1'', saleDate = 2, quantitySold = 3 \<rparr>]"

definition fallingTrend :: "salesRecord list \<Rightarrow> int \<Rightarrow> real option" where
  "fallingTrend history horizon = Some (- 50)"

definition failingFit :: "salesRecord list \<Rightarrow> int \<Rightarrow> real option" where
  "failingFit history horizon = None"

definition meanSold :: "salesRecord list \<Rightarrow> real" where
  "meanSold history = sum_list (map quantitySold history) / real (length history)"

section \<open>The agent service: SupplierRanker\<close>

text \<open>
  Modelled from the spec: the data model of the ranker (\<open>supplier_ranker.py\<close> is
  missing): Supplier with its optional attributes, SupplierScore with its method and
  1-based rank, and the urgency of a request.
\<close>

datatype urgency = NORMAL | URGENT

datatype scoreMethod = SCORE_MODEL | RULE_BASED

datatype rankError = NoSuppliersFound

record supplier =
  supplierId :: string
  reliabilityScore :: "real option"
  avgLeadTimeDays :: "real option"
  priceIndex :: "real option"

record supplierScore =
  score_supplierId :: string
  score :: real
  score_method :: scoreMethod
  rankPosition :: nat

text \<open>
  Modelled from the spec: the test that the features required by the trained model are
  present for a supplier (\<open>supplier_ranker.py\<close> is missing).
\<close>

definition featuresPresent :: "supplier \<Rightarrow> bool" where
  "featuresPresent s =
     (reliabilityScore s \<noteq> None \<and> avgLeadTimeDays s \<noteq> None \<and> priceIndex s \<noteq> None)"

text \<open>
  Modelled from the spec: the scoring of one supplier by \<open>SupplierRanker.rank\<close>
  (\<open>supplier_ranker.py\<close> is missing). The learned score when a trained model exists and
  the supplier has the required features, the rule-based weighted score otherwise; both
  scorers are parameters.
\<close>

definition scoreSupplier ::
  "(urgency \<Rightarrow> supplier \<Rightarrow> real) option \<Rightarrow> (urgency \<Rightarrow> supplier \<Rightarrow> real) \<Rightarrow> urgency \<Rightarrow> supplier
   \<Rightarrow> supplierScore" where
  "scoreSupplier trained ruleScore u s =
     (case trained of
        Some m \<Rightarrow>
          if featuresPresent s
          then \<lparr> score_supplierId = supplierId s, score = m u s, score_method = SCORE_MODEL,
                 rankPosition = 0 \<rparr>
          else \<lparr> score_supplierId = supplierId s, score = ruleScore u s,
                 score_method = RULE_BASED, rankPosition = 0 \<rparr>
      | None \<Rightarrow>
          \<lparr> score_supplierId = supplierId s, score = ruleScore u s, score_method = RULE_BASED,
            rankPosition = 0 \<rparr>)"

text \<open>
  Modelled from the spec: the order of a ranking (\<open>supplier_ranker.py\<close> is missing).
  "Suppliers are sorted descending by score; ties broken by supplierId ascending."
\<close>

definition ranksBefore :: "supplierScore \<Rightarrow> supplierScore \<Rightarrow> bool" where
  "ranksBefore a b =
     (score b < score a \<or> (score a = score b \<and> score_supplierId a \<le> score_supplierId b))"

text \<open>
  Modelled from the spec: sorting a list of scores in that order and numbering it from a
  first rank (\<open>supplier_ranker.py\<close> is missing).
\<close>

fun insertScore :: "supplierScore \<Rightarrow> supplierScore list \<Rightarrow> supplierScore list" where
  "insertScore x [] = [x]"
| "insertScore x (y # ys) = (if ranksBefore x y then x # y # ys else y # insertScore x ys)"

fun sortScores :: "supplierScore list \<Rightarrow> supplierScore list" where
  "sortScores [] = []"
| "sortScores (x # xs) = insertScore x (sortScores xs)"

fun assignRanks :: "nat \<Rightarrow> supplierScore list \<Rightarrow> supplierScore list" where
  "assignRanks n [] = []"
| "assignRanks n (x # xs) = x\<lparr> rankPosition := n \<rparr> # assignRanks (Suc n) xs"

text \<open>
  Modelled from the spec: \<open>SupplierRanker.rank\<close> (\<open>supplier_ranker.py\<close> is missing).
  An empty candidate set is the error \<open>NoSuppliersFound\<close>; otherwise every candidate is
  scored, the scores are sorted and numbered from 1.
\<close>

definition rank ::
  "(urgency \<Rightarrow> supplier \<Rightarrow> real) option \<Rightarrow> (urgency \<Rightarrow> supplier \<Rightarrow> real) \<Rightarrow> supplier list
   \<Rightarrow> urgency \<Rightarrow> rankError + supplierScore list" where
  "rank trained ruleScore candidateSuppliers u =
     (if candidateSuppliers = [] then Inl NoSuppliersFound
      else Inr (assignRanks 1
                  (sortScores (map (scoreSupplier trained ruleScore u) candidateSuppliers))))"

text \<open>Three suppliers, two of them with the same reliability, and a rule that scores by it.\<close>

definition exampleSuppliers :: "supplier list" where
  "exampleSuppliers =
     [\<lparr> supplierId = ''s2'', reliabilityScore = Some 5, avgLeadTimeDays = None,
        priceIndex = None \<rparr>,
      \<lparr> supplierId = ''s3'', reliabilityScore = Some 8, avgLeadTimeDays = None,
        priceIndex = None \<rparr>,
      \<lparr> supplierId = ''s1'', reliabilityScore = Some 5, avgLeadTimeDays = None,
        priceIndex = None \<rparr>]"

definition reliabilityRule :: "urgency \<Rightarrow> supplier \<Rightarrow> real" where
  "reliabilityRule u s = (case reliabilityScore s of None \<Rightarrow> 0 | Some r \<Rightarrow> r)"

section \<open>The agent service: the stuck-task rule of the DecisionEngine\<close>

text \<open>
  Modelled from the spec: the data model of the decision engine (\<open>decision_engine.py\<close>
  is missing): the decision types, Task, and a Decision about a task.
\<close>

datatype decisionType =
  LOW_STOCK | BOTTLENECK | STUCK_TASK | EXPIRY_WARNING | SUPPLIER_RECOMMENDATION

record task =
  taskId :: string
  task_status :: string
  startedAt :: int
  expectedDurationMinutes :: int
  task_type :: string

text \<open>
  Modelled from the spec: a Decision about a task (\<open>decision_engine.py\<close> is missing);
  the payload is the task it is about.
\<close>

record taskDecision =
  decision_type :: decisionType
  decision_urgency :: urgency
  payload :: task
  createdAt :: int

text \<open>
  Modelled from the spec: the length of a minute, the unit of \<open>expectedDurationMinutes\<close>,
  in the milliseconds of the timestamps (\<open>decision_engine.py\<close> is missing).
\<close>

definition msPerMinute :: int where
  "msPerMinute = 60000"

text \<open>
  Modelled from the spec: the stuck-task rule of \<open>DecisionEngine.evaluate\<close>
  (\<open>decision_engine.py\<close> is missing). A task with status "in progress" is stuck when
  its elapsed time has reached \<open>multiplier\<close> times its expected duration; timestamps are
  in milliseconds and the boundary is included, as the testable property "flags a task at
  exactly 2x expectedDurationMinutes elapsed" has it.
\<close>

definition isStuck :: "int \<Rightarrow> int \<Rightarrow> task \<Rightarrow> bool" where
  "isStuck multiplier now t =
     (task_status t = ''in progress''
      \<and> multiplier * expectedDurationMinutes t * msPerMinute \<le> now - startedAt t)"

text \<open>
  Modelled from the spec: the decisions of the stuck-task rule
  (\<open>decision_engine.py\<close> is missing): \<open>STUCK_TASK\<close> with urgency \<open>URGENT\<close> for
  every stuck task.
\<close>

definition stuckTaskDecisions :: "int \<Rightarrow> int \<Rightarrow> task list \<Rightarrow> taskDecision list" where
  "stuckTaskDecisions multiplier now tasks =
     map (\<lambda>t. \<lparr> decision_type = STUCK_TASK, decision_urgency = URGENT, payload = t,
                 createdAt = now \<rparr>)
       (filter (isStuck multiplier now) tasks)"

text \<open>
  Modelled from the spec: bottleneck detection (\<open>decision_engine.py\<close> is missing). The
  outlier detector is a parameter that answers the urgency of a task it flags from the
  recent task history; with a history below the minimum sample size it is not run.
\<close>

definition bottleneckDecisions ::
  "nat \<Rightarrow> (task list \<Rightarrow> task \<Rightarrow> urgency option) \<Rightarrow> task list \<Rightarrow> int \<Rightarrow> task list
   \<Rightarrow> taskDecision list" where
  "bottleneckDecisions minSampleSize detector history now tasks =
     (if length history < minSampleSize then []
      else concat (map (\<lambda>t. case detector history t of
                               None \<Rightarrow> []
                             | Some u \<Rightarrow> [\<lparr> decision_type = BOTTLENECK, decision_urgency = u,
                                            payload = t, createdAt = now \<rparr>]) tasks))"

text \<open>
  Modelled from the spec: the task sub-evaluations of \<open>DecisionEngine.evaluate\<close>
  (\<open>decision_engine.py\<close> is missing). Bottleneck detection and the stuck-task rule are
  independent, and the stuck-task rule always runs.
\<close>

definition evaluateTasks ::
  "int \<Rightarrow> nat \<Rightarrow> (task list \<Rightarrow> task \<Rightarrow> urgency option) \<Rightarrow> task list \<Rightarrow> int \<Rightarrow> task list
   \<Rightarrow> taskDecision list" where
  "evaluateTasks multiplier minSampleSize detector history now activeTasks =
     bottleneckDecisions minSampleSize detector history now activeTasks
     @ stuckTaskDecisions multiplier now activeTasks"

text \<open>A task started at instant 0 and expected to take 30 minutes.\<close>

definition exampleTask :: task where
  "exampleTask =
     \<lparr> taskId = ''t1'', task_status = ''in progress'', startedAt = 0,
       expectedDurationMinutes = 30, task_type = ''purchase-order'' \<rparr>"

section \<open>Properties of getAllItems\<close>

lemma foldl_quantity_acc:
  "foldl (\<lambda>sum b. sum + quantity b) a bs = a + sum_list (map quantity bs)"
  by (induction bs arbitrary: a) simp_all

lemma totalStock_sum_list: "totalStock bs = sum_list (map quantity bs)"
  by (simp add: totalStock_def foldl_quantity_acc)

text \<open>
  C1 (as stated) fails: the query of \<open>getAllItems\<close> filters the batches on their
  quantity only, so an expired batch is counted. In \<open>expiredDb\<close> the only batch expired
  at instant 0; at instant 1000 the non-expired stock of the item is 0 and
  \<open>getAllItems\<close> reports 5.
\<close>

theorem getAllItems_counts_expired_batch:
  "getAllItems expiredDb =
     [\<lparr> view_id = ''i1'', view_name = ''Rice'', view_category = None,
        view_deletedAt = None, currentStock = 5 \<rparr>]
   \<and> nonExpiredStock 1000 expiredDb ''i1'' = 0"
  by (simp add: getAllItems_def expiredDb_def includedBatches_def totalStock_def
      nonExpiredStock_def)

text \<open>
  C1 (amended): for every item returned by \<open>getAllItems\<close>, \<open>currentStock\<close> is the sum of
  the quantities of the positive-quantity batches of that item, expired or not.
\<close>

theorem getAllItems_currentStock:
  "v \<in> set (getAllItems d) \<Longrightarrow> currentStock v = positiveStock d (view_id v)"
  by (auto simp: getAllItems_def includedBatches_def positiveStock_def totalStock_sum_list)

theorem getAllItems_currentStock_witness:
  "\<lparr> view_id = ''i1'', view_name = ''Rice'', view_category = None,
      view_deletedAt = None, currentStock = 5 \<rparr> \<in> set (getAllItems expiredDb)
   \<and> positiveStock expiredDb ''i1'' = 5"
  using getAllItems_currentStock
    [of "\<lparr> view_id = ''i1'', view_name = ''Rice'', view_category = None,
           view_deletedAt = None, currentStock = 5 \<rparr>" expiredDb]
  by (simp add: getAllItems_def expiredDb_def includedBatches_def totalStock_def)

section \<open>Properties of numbers and dates\<close>

text \<open>The bit length bounds a number by powers of two.\<close>

lemma bitLength_le: "m < 2 ^ k \<Longrightarrow> bitLength m \<le> k"
proof (induction k arbitrary: m)
  case 0
  then show ?case by (subst bitLength.simps) simp
next
  case (Suc k)
  show ?case
  proof (cases "m = 0")
    case True
    then show ?thesis by (subst bitLength.simps) simp
  next
    case False
    have "m div 2 < 2 ^ k" using Suc.prems by simp
    then have "bitLength (m div 2) \<le> k" by (rule Suc.IH)
    then show ?thesis using False by (subst bitLength.simps) simp
  qed
qed

lemma bitLength_ge: "2 ^ k \<le> m \<Longrightarrow> k < bitLength m"
proof (induction k arbitrary: m)
  case 0
  then show ?case by (subst bitLength.simps) simp
next
  case (Suc k)
  then have "2 ^ k \<le> m div 2" by simp
  then have kk: "k < bitLength (m div 2)" by (rule Suc.IH)
  have "(0::nat) < 2 ^ Suc k" by simp
  then have "m \<noteq> 0" using Suc.prems by linarith
  then show ?case using kk by (subst bitLength.simps) simp
qed

text \<open>
  An integer of magnitude at most \<open>2^53\<close> is a double: converting it to a number changes
  nothing.
\<close>

lemma big_bound: "(2::nat) ^ 54 < 2 ^ 1024"
  by (rule power_strict_increasing) simp_all

lemma roundNat_exact: "m \<le> 2 ^ 53 \<Longrightarrow> roundNat m = Some m"
proof (cases "m = 2 ^ 53")
  case True
  have "bitLength m \<le> 54" using True by (intro bitLength_le) simp
  moreover have "53 < bitLength m" using True by (intro bitLength_ge) simp
  ultimately have e: "bitLength m - 53 = 1" by simp
  have q: "m div 2 ^ 1 = 2 ^ 52" and r: "m mod 2 ^ 1 = 0" using True by simp_all
  have b: "\<not> (2::nat) ^ 1024 \<le> 2 ^ 52 * 2 ^ 1"
    using big_bound by simp
  have v: "(2::nat) ^ 52 * 2 ^ 1 = m" using True by simp
  show ?thesis
    unfolding roundNat_def Let_def e q r using b v by simp
next
  case False
  assume "m \<le> 2 ^ 53"
  then have lt: "m < 2 ^ 53" using False by simp
  then have e: "bitLength m - 53 = 0" using bitLength_le [of m 53] by simp
  have "m < 2 ^ 54" using lt by simp
  then have b: "\<not> (2::nat) ^ 1024 \<le> m" using big_bound by linarith
  show ?thesis
    unfolding roundNat_def Let_def e using b by simp
qed

lemma toNumber_exact: "\<bar>i\<bar> \<le> 2 ^ 53 \<Longrightarrow> toNumber i = Fin i"
proof -
  assume a: "\<bar>i\<bar> \<le> 2 ^ 53"
  then have "nat \<bar>i\<bar> \<le> 2 ^ 53" by (simp add: nat_le_iff)
  then have "roundNat (nat \<bar>i\<bar>) = Some (nat \<bar>i\<bar>)" by (rule roundNat_exact)
  then show ?thesis by (simp add: toNumber_def)
qed


text \<open>Adding two finite numbers is exact while the operands and the sum stay in that range.\<close>

lemma jsAdd_exact:
  "\<bar>a\<bar> \<le> 2 ^ 53 \<Longrightarrow> \<bar>a + b\<bar> \<le> 2 ^ 53 \<Longrightarrow> jsAdd (toNumber a) (Fin b) = Fin (a + b)"
  by (simp add: toNumber_exact)

lemma jsAdd_Fin: "jsAdd x y = Fin n \<Longrightarrow> \<exists>a b. x = Fin a \<and> y = Fin b"
  by (cases x; cases y) simp_all

text \<open>
  On a UTC server \<open>setDate\<close> moves a date by 86400000 ms per day; across a change of
  the local offset it does not (23 hours in \<open>summerZone\<close>).
\<close>

lemma addDays_utc:
  "addDays utcZone t (Fin n) =
     (if maxTime < \<bar>t\<bar> \<or> maxTime < \<bar>t + n * 86400000\<bar> then None else Some (t + n * 86400000))"
  by (simp add: addDays_def utcZone_def timeClip_def msPerDay_def)

lemma addDays_summer: "addDays summerZone 0 (Fin 1) = Some 82800000"
  by (simp add: addDays_def summerZone_def timeClip_def msPerDay_def maxTime_def)

text \<open>Beyond 53 bits a number is rounded: \<open>2^53 + 1\<close> becomes \<open>2^53\<close>.\<close>

lemma toNumber_rounds: "toNumber 9007199254740993 = Fin 9007199254740992"
proof -
  let ?m = "9007199254740993::nat"
  have "bitLength ?m \<le> 54" by (intro bitLength_le) simp
  moreover have "53 < bitLength ?m" by (intro bitLength_ge) simp
  ultimately have e: "bitLength ?m - 53 = 1" by simp
  have b: "\<not> (2::nat) ^ 1024 \<le> 2 ^ 54" using big_bound by simp
  have "roundNat ?m = Some 9007199254740992"
    unfolding roundNat_def Let_def e using b by simp
  then show ?thesis by (simp add: toNumber_def)
qed

section \<open>Properties of getExpiringBatches\<close>

text \<open>
  C2 (as stated) fails: not every window length gives a result. With a window of
  1000000000 days the target date lies beyond the range of \<open>Date\<close>, the query is
  refused and the service throws, although batch \<open>b2\<close> of \<open>fefoDb\<close> holds a positive
  quantity and expires between now and now plus the window.
\<close>

theorem getExpiringBatches_invalid_date:
  "getExpiringBatches utcZone fefoDb 150 150 (Fin 1000000000) = Inl InvalidDate
   \<and> \<lparr> batch_id = ''b2'', itemId = ''i1'', quantity = 2, expiryDate = 200,
        batchNumber = ''B-2'' \<rparr> \<in> set (inventoryBatches fefoDb)
   \<and> (0::int) < 2 \<and> (150::int) \<le> 200 \<and> (200::int) \<le> 150 + 1000000000 * 86400000"
  by (simp add: getExpiringBatches_def addDays_def utcZone_def timeClip_def msPerDay_def
      maxTime_def fefoDb_def)

text \<open>
  C2 (amended): for every window length \<open>days\<close> for which the target date (now moved by
  \<open>days\<close> calendar days of server local time; on a UTC server now plus \<open>days\<close>
  times 86400000 ms) is a valid \<open>Date\<close>, and every store, \<open>getExpiringBatches\<close> returns
  exactly the batches (each once, as a multiset) that hold a positive quantity and whose
  expiry date lies between the clock reading of the query and the target date, both bounds
  included, in ascending order of expiry date. When the target date is not a valid
  \<open>Date\<close> the call throws.
\<close>

theorem getExpiringBatches_valid_window:
  "(\<forall>target. addDays zone now days = Some target \<and> \<bar>later\<bar> \<le> maxTime \<longrightarrow>
      (\<exists>r. getExpiringBatches zone d now later days = Inr r
         \<and> mset (map fst r) =
             filter_mset (\<lambda>b. 0 < quantity b \<and> later \<le> expiryDate b \<and> expiryDate b \<le> target)
               (mset (inventoryBatches d))
         \<and> sorted (map (\<lambda>x. expiryDate (fst x)) r)))
   \<and> (addDays zone now days = None \<or> maxTime < \<bar>later\<bar> \<longrightarrow>
        getExpiringBatches zone d now later days = Inl InvalidDate)
   \<and> addDays utcZone now (Fin n) =
       (if maxTime < \<bar>now\<bar> \<or> maxTime < \<bar>now + n * 86400000\<bar> then None
        else Some (now + n * 86400000))"
proof (intro conjI allI impI)
  fix target
  assume h: "addDays zone now days = Some target \<and> \<bar>later\<bar> \<le> maxTime"
  let ?bs = "sort_key expiryDate
       (filter (\<lambda>b. quantity b > 0 \<and> expiryDate b \<le> target \<and> expiryDate b \<ge> later)
          (inventoryBatches d))"
  let ?r = "map (\<lambda>b. (b, find (\<lambda>it. item_id it = itemId b) (items d))) ?bs"
  have c: "timeClip later = Some later" using h by (simp add: timeClip_def)
  have r: "getExpiringBatches zone d now later days = Inr ?r"
    using h c by (simp add: getExpiringBatches_def)
  have f: "map fst ?r = ?bs" by (simp add: comp_def)
  have m: "mset (map fst ?r) =
      filter_mset (\<lambda>b. 0 < quantity b \<and> later \<le> expiryDate b \<and> expiryDate b \<le> target)
        (mset (inventoryBatches d))"
    unfolding f by (simp add: conj_commute conj_left_commute)
  have eq: "map (\<lambda>x. expiryDate (fst x)) ?r = map expiryDate ?bs" by (simp add: comp_def)
  have s: "sorted (map (\<lambda>x. expiryDate (fst x)) ?r)"
    unfolding eq by (rule sorted_sort_key)
  show "\<exists>r. getExpiringBatches zone d now later days = Inr r
         \<and> mset (map fst r) =
             filter_mset (\<lambda>b. 0 < quantity b \<and> later \<le> expiryDate b \<and> expiryDate b \<le> target)
               (mset (inventoryBatches d))
         \<and> sorted (map (\<lambda>x. expiryDate (fst x)) r)"
    using r m s by blast
next
  assume "addDays zone now days = None \<or> maxTime < \<bar>later\<bar>"
  then show "getExpiringBatches zone d now later days = Inl InvalidDate"
    by (auto simp: getExpiringBatches_def timeClip_def split: option.splits)
next
  show "addDays utcZone now (Fin n) =
       (if maxTime < \<bar>now\<bar> \<or> maxTime < \<bar>now + n * 86400000\<bar> then None
        else Some (now + n * 86400000))"
    by (rule addDays_utc)
qed

text \<open>
  In \<open>fefoDb\<close> at instant 150 a window of one day returns the batches expiring at 200
  and 300 in this order and leaves out those that expired at 50 and 100; a window of
  1000000000 days and an infinite window throw.
\<close>

theorem getExpiringBatches_valid_window_witness:
  "addDays utcZone 150 (Fin 1) = Some 86400150 \<and> \<bar>150::int\<bar> \<le> maxTime
   \<and> (\<exists>r. getExpiringBatches utcZone fefoDb 150 150 (Fin 1) = Inr r
          \<and> map (\<lambda>x. batch_id (fst x)) r = [''b2'', ''b3''])
   \<and> addDays utcZone 150 (Fin 1000000000) = None
   \<and> getExpiringBatches utcZone fefoDb 150 150 (Fin 1000000000) = Inl InvalidDate
   \<and> addDays utcZone 150 PosInf = None
   \<and> getExpiringBatches utcZone fefoDb 150 150 PosInf = Inl InvalidDate"
proof -
  have a: "addDays utcZone 150 (Fin 1) = Some 86400150"
    by (simp add: addDays_def utcZone_def timeClip_def msPerDay_def maxTime_def)
  have b: "\<bar>150::int\<bar> \<le> maxTime" by (simp add: maxTime_def)
  have c: "addDays utcZone 150 (Fin 1000000000) = None"
    by (simp add: addDays_def utcZone_def timeClip_def msPerDay_def maxTime_def)
  have i: "addDays utcZone 150 PosInf = None"
    by (simp add: addDays_def utcZone_def timeClip_def maxTime_def)
  have e: "getExpiringBatches utcZone fefoDb 150 150 (Fin 1) =
      Inr (map (\<lambda>b. (b, find (\<lambda>it. item_id it = itemId b) (items fefoDb)))
        [\<lparr> batch_id = ''b2'', itemId = ''i1'', quantity = 2, expiryDate = 200,
            batchNumber = ''B-2'' \<rparr>,
         \<lparr> batch_id = ''b3'', itemId = ''i1'', quantity = 4, expiryDate = 300,
            batchNumber = ''B-3'' \<rparr>])"
    by (simp add: getExpiringBatches_def a timeClip_def maxTime_def) (simp add: fefoDb_def)
  show ?thesis
    using getExpiringBatches_valid_window
        [where zone = utcZone and now = 150 and days = "Fin 1" and later = 150
           and d = fefoDb and n = 1]
      getExpiringBatches_valid_window
        [where zone = utcZone and now = 150 and days = "Fin 1000000000" and later = 150
           and d = fefoDb and n = 1]
      getExpiringBatches_valid_window
        [where zone = utcZone and now = 150 and days = PosInf and later = 150
           and d = fefoDb and n = 1]
      a b c i e
    by simp
qed

section \<open>Properties of allocateStockFEFO\<close>

text \<open>Once nothing remains to allocate, the loop leaves its variables as they are.\<close>

lemma allocateLoop_done: "r \<le> 0 \<Longrightarrow> allocateLoop bs r acc = (r, acc)"
  by (cases bs) simp_all

text \<open>
  The entries already collected play no part in the loop: running it from any list of
  entries appends what it would collect from the empty list.
\<close>

lemma allocateLoop_acc:
  "allocateLoop bs r acc = (fst (allocateLoop bs r []), acc @ snd (allocateLoop bs r []))"
proof (induction bs arbitrary: r acc)
  case Nil
  show ?case by simp
next
  case (Cons b bs)
  show ?case
  proof (cases "r \<le> 0")
    case True
    then show ?thesis by simp
  next
    case False
    let ?t = "min (quantity b) r"
    let ?e = "\<lparr> batchId = batch_id b, qty = ?t, expiry = expiryDate b,
                 entry_batchNumber = batchNumber b \<rparr>"
    have "allocateLoop (b # bs) r acc = allocateLoop bs (r - ?t) (acc @ [?e])"
      using False by (simp add: Let_def)
    also have "\<dots> = (fst (allocateLoop bs (r - ?t) []),
                      (acc @ [?e]) @ snd (allocateLoop bs (r - ?t) []))"
      by (rule Cons.IH)
    finally have lhs: "allocateLoop (b # bs) r acc =
        (fst (allocateLoop bs (r - ?t) []), acc @ ?e # snd (allocateLoop bs (r - ?t) []))"
      by simp
    have "allocateLoop (b # bs) r [] = allocateLoop bs (r - ?t) [?e]"
      using False by (simp add: Let_def)
    also have "\<dots> = (fst (allocateLoop bs (r - ?t) []),
                      [?e] @ snd (allocateLoop bs (r - ?t) []))"
      by (rule Cons.IH)
    finally have rhs: "allocateLoop (b # bs) r [] =
        (fst (allocateLoop bs (r - ?t) []), ?e # snd (allocateLoop bs (r - ?t) []))"
      by simp
    show ?thesis by (simp only: lhs rhs fst_conv snd_conv)
  qed
qed

lemma allocateLoop_Cons:
  "0 < r \<Longrightarrow> allocateLoop (b # bs) r [] =
     (fst (allocateLoop bs (r - min (quantity b) r) []),
      \<lparr> batchId = batch_id b, qty = min (quantity b) r, expiry = expiryDate b,
         entry_batchNumber = batchNumber b \<rparr> # snd (allocateLoop bs (r - min (quantity b) r) []))"
  using allocateLoop_acc [of bs "r - min (quantity b) r"
      "[\<lparr> batchId = batch_id b, qty = min (quantity b) r, expiry = expiryDate b,
         entry_batchNumber = batchNumber b \<rparr>]"]
  by (simp add: Let_def)

lemma allocateLoop_sum:
  "sum_list (map qty (snd (allocateLoop bs r []))) = r - fst (allocateLoop bs r [])"
proof (induction bs arbitrary: r)
  case Nil
  show ?case by simp
next
  case (Cons b bs)
  show ?case
  proof (cases "r \<le> 0")
    case True
    then show ?thesis by simp
  next
    case False
    then have "0 < r" by simp
    then show ?thesis
      using Cons.IH [of "r - min (quantity b) r"]
      by (simp add: allocateLoop_Cons del: allocateLoop.simps)
  qed
qed

lemma sum_list_quantity_nonneg:
  "\<forall>b\<in>set bs. 0 < quantity b \<Longrightarrow> 0 \<le> sum_list (map quantity bs)"
  by (induction bs) auto

lemma allocateLoop_remaining:
  "\<forall>b\<in>set bs. 0 < quantity b \<Longrightarrow>
   fst (allocateLoop bs r []) = (if r \<le> 0 then r else max 0 (r - sum_list (map quantity bs)))"
proof (induction bs arbitrary: r)
  case Nil
  show ?case by simp
next
  case (Cons b bs)
  show ?case
  proof (cases "r \<le> 0")
    case True
    then show ?thesis by simp
  next
    case False
    then have r: "0 < r" by simp
    have pos: "0 \<le> sum_list (map quantity bs)"
      using Cons.prems by (simp add: sum_list_quantity_nonneg)
    have IH: "fst (allocateLoop bs (r - min (quantity b) r) []) =
        (if r - min (quantity b) r \<le> 0 then r - min (quantity b) r
         else max 0 (r - min (quantity b) r - sum_list (map quantity bs)))"
      using Cons.IH [of "r - min (quantity b) r"] Cons.prems by simp
    show ?thesis
      using r pos IH by (simp add: allocateLoop_Cons min_def max_def del: allocateLoop.simps)
  qed
qed

lemma allocateLoop_length:
  "length (snd (allocateLoop bs r [])) \<le> length bs"
proof (induction bs arbitrary: r)
  case Nil
  show ?case by simp
next
  case (Cons b bs)
  show ?case
  proof (cases "r \<le> 0")
    case True
    then show ?thesis by simp
  next
    case False
    then have "0 < r" by simp
    then show ?thesis
      using Cons.IH [of "r - min (quantity b) r"]
      by (simp add: allocateLoop_Cons del: allocateLoop.simps)
  qed
qed

lemma allocateLoop_entry:
  "k < length (snd (allocateLoop bs r [])) \<Longrightarrow>
   batchId (snd (allocateLoop bs r []) ! k) = batch_id (bs ! k) \<and>
   expiry (snd (allocateLoop bs r []) ! k) = expiryDate (bs ! k) \<and>
   entry_batchNumber (snd (allocateLoop bs r []) ! k) = batchNumber (bs ! k) \<and>
   qty (snd (allocateLoop bs r []) ! k) \<le> quantity (bs ! k)"
proof (induction bs arbitrary: r k)
  case Nil
  then show ?case by simp
next
  case (Cons b bs)
  show ?case
  proof (cases "r \<le> 0")
    case True
    then show ?thesis using Cons.prems by simp
  next
    case False
    then have r: "0 < r" by simp
    show ?thesis
    proof (cases k)
      case 0
      then show ?thesis using r by (simp add: allocateLoop_Cons del: allocateLoop.simps)
    next
      case (Suc j)
      then have "j < length (snd (allocateLoop bs (r - min (quantity b) r) []))"
        using Cons.prems r by (simp add: allocateLoop_Cons del: allocateLoop.simps)
      then show ?thesis
        using Cons.IH [of j "r - min (quantity b) r"] r Suc by (simp add: allocateLoop_Cons del: allocateLoop.simps)
    qed
  qed
qed

lemma allocateLoop_full:
  "Suc k < length (snd (allocateLoop bs r [])) \<Longrightarrow>
   qty (snd (allocateLoop bs r []) ! k) = quantity (bs ! k)"
proof (induction bs arbitrary: r k)
  case Nil
  then show ?case by simp
next
  case (Cons b bs)
  show ?case
  proof (cases "r \<le> 0")
    case True
    then show ?thesis using Cons.prems by simp
  next
    case False
    then have r: "0 < r" by simp
    have len: "k < length (snd (allocateLoop bs (r - min (quantity b) r) []))"
      using Cons.prems r by (simp add: allocateLoop_Cons del: allocateLoop.simps)
    show ?thesis
    proof (cases k)
      case 0
      have "\<not> r - min (quantity b) r \<le> 0"
      proof
        assume "r - min (quantity b) r \<le> 0"
        then have "snd (allocateLoop bs (r - min (quantity b) r) []) = []"
          by (simp add: allocateLoop_done)
        then show False using len by simp
      qed
      then have "min (quantity b) r = quantity b" by (simp add: min_def split: if_splits)
      then show ?thesis using 0 r by (simp add: allocateLoop_Cons del: allocateLoop.simps)
    next
      case (Suc j)
      then have "Suc j < length (snd (allocateLoop bs (r - min (quantity b) r) []))"
        using len by simp
      then show ?thesis
        using Cons.IH [of j "r - min (quantity b) r"] r Suc by (simp add: allocateLoop_Cons del: allocateLoop.simps)
    qed
  qed
qed


text \<open>What the query of \<open>allocateStockFEFO\<close> returns.\<close>

lemma fefoBatches_set:
  "set (fefoBatches d i) = {b \<in> set (inventoryBatches d). itemId b = i \<and> 0 < quantity b}"
  by (auto simp: fefoBatches_def)

lemma fefoBatches_sorted: "sorted (map expiryDate (fefoBatches d i))"
  by (simp add: fefoBatches_def)

lemma fefoBatches_total: "sum_list (map quantity (fefoBatches d i)) = positiveStock d i"
proof -
  have "mset (fefoBatches d i) =
      mset (filter (\<lambda>b. itemId b = i \<and> 0 < quantity b) (inventoryBatches d))"
    by (simp add: fefoBatches_def)
  then have "sum_mset (image_mset quantity (mset (fefoBatches d i))) =
      sum_mset (image_mset quantity
        (mset (filter (\<lambda>b. itemId b = i \<and> 0 < quantity b) (inventoryBatches d))))"
    by (rule arg_cong)
  then show ?thesis
    by (simp only: positiveStock_def sum_mset_sum_list [symmetric] mset_map)
qed

lemma fefo_remaining:
  "fst (allocateLoop (fefoBatches d i) q []) =
     (if q \<le> 0 then q else max 0 (q - positiveStock d i))"
  using allocateLoop_remaining [of "fefoBatches d i" q]
  by (simp add: fefoBatches_set fefoBatches_total)

lemma allocation_eq:
  "allocation (allocateStockFEFO d i q) = snd (allocateLoop (fefoBatches d i) q [])"
  by (simp add: allocateStockFEFO_def split: prod.splits)

lemma feasible_eq:
  "feasible (allocateStockFEFO d i q) = (fst (allocateLoop (fefoBatches d i) q []) \<le> 0)"
  by (auto simp: allocateStockFEFO_def split: prod.splits)

lemma shortfall_eq:
  "shortfall (allocateStockFEFO d i q) =
     (if 0 < fst (allocateLoop (fefoBatches d i) q [])
      then Some (fst (allocateLoop (fefoBatches d i) q [])) else None)"
  by (auto simp: allocateStockFEFO_def split: prod.splits)

lemma positiveStock_nonneg: "0 \<le> positiveStock d i"
  unfolding positiveStock_def by (rule sum_list_quantity_nonneg) simp

text \<open>
  C8: \<open>allocateStockFEFO\<close> answers \<open>feasible\<close> exactly when the positive-quantity
  stock of the item covers \<open>qtyNeeded\<close>. A request of zero or less allocates nothing; a
  feasible request for a positive quantity allocates exactly that quantity and carries no
  shortfall; an infeasible request allocates the whole stock and reports the rest as
  shortfall. Entry \<open>k\<close> of the allocation is taken from batch \<open>k\<close> of the query and never
  exceeds the quantity that batch holds.
\<close>

theorem allocateStockFEFO_feasibility:
  "(feasible (allocateStockFEFO d i q) \<longleftrightarrow> q \<le> positiveStock d i)
   \<and> (q \<le> 0 \<longrightarrow> allocation (allocateStockFEFO d i q) = [])
   \<and> (feasible (allocateStockFEFO d i q) \<and> 0 < q \<longrightarrow>
        sum_list (map qty (allocation (allocateStockFEFO d i q))) = q)
   \<and> (feasible (allocateStockFEFO d i q) \<longrightarrow> shortfall (allocateStockFEFO d i q) = None)
   \<and> (\<not> feasible (allocateStockFEFO d i q) \<longrightarrow>
        sum_list (map qty (allocation (allocateStockFEFO d i q))) = positiveStock d i
        \<and> shortfall (allocateStockFEFO d i q) = Some (q - positiveStock d i))
   \<and> length (allocation (allocateStockFEFO d i q)) \<le> length (fefoBatches d i)
   \<and> (\<forall>k < length (allocation (allocateStockFEFO d i q)).
        batchId (allocation (allocateStockFEFO d i q) ! k) = batch_id (fefoBatches d i ! k)
        \<and> qty (allocation (allocateStockFEFO d i q) ! k) \<le> quantity (fefoBatches d i ! k))"
proof -
  let ?r = "allocateStockFEFO d i q"
  let ?rem = "fst (allocateLoop (fefoBatches d i) q [])"
  have rem: "?rem = (if q \<le> 0 then q else max 0 (q - positiveStock d i))"
    by (rule fefo_remaining)
  have nonneg: "0 \<le> positiveStock d i" by (rule positiveStock_nonneg)
  have sum: "sum_list (map qty (allocation ?r)) = q - ?rem"
    by (simp add: allocation_eq allocateLoop_sum)
  have c1: "feasible ?r \<longleftrightarrow> q \<le> positiveStock d i"
    using rem nonneg by (simp add: feasible_eq max_def split: if_splits)
  have c2: "q \<le> 0 \<longrightarrow> allocation ?r = []"
    by (simp add: allocation_eq allocateLoop_done)
  have c3: "feasible ?r \<and> 0 < q \<longrightarrow> sum_list (map qty (allocation ?r)) = q"
    using rem sum by (simp add: feasible_eq max_def split: if_splits)
  have c4: "feasible ?r \<longrightarrow> shortfall ?r = None"
    by (simp add: feasible_eq shortfall_eq)
  have c5: "\<not> feasible ?r \<longrightarrow> sum_list (map qty (allocation ?r)) = positiveStock d i
        \<and> shortfall ?r = Some (q - positiveStock d i)"
    using rem sum by (simp add: feasible_eq shortfall_eq max_def split: if_splits)
  have c6: "length (allocation ?r) \<le> length (fefoBatches d i)"
    by (simp add: allocation_eq allocateLoop_length)
  have c7: "\<forall>k < length (allocation ?r).
        batchId (allocation ?r ! k) = batch_id (fefoBatches d i ! k)
        \<and> qty (allocation ?r ! k) \<le> quantity (fefoBatches d i ! k)"
    using allocateLoop_entry [of _ "fefoBatches d i" q] by (simp add: allocation_eq)
  show ?thesis using c1 c2 c3 c4 c5 c6 c7 by blast
qed

text \<open>The three batches of item \<open>i1\<close> in \<open>fefoDb\<close>, as the query orders them.\<close>

lemma fefoDb_batches:
  "fefoBatches fefoDb ''i1'' =
     [\<lparr> batch_id = ''b1'', itemId = ''i1'', quantity = 5, expiryDate = 100,
        batchNumber = ''B-1'' \<rparr>,
      \<lparr> batch_id = ''b2'', itemId = ''i1'', quantity = 2, expiryDate = 200,
        batchNumber = ''B-2'' \<rparr>,
      \<lparr> batch_id = ''b3'', itemId = ''i1'', quantity = 4, expiryDate = 300,
        batchNumber = ''B-3'' \<rparr>]"
  by (simp add: fefoBatches_def fefoDb_def)

text \<open>A feasible request, an infeasible one and a request for a negative quantity.\<close>

theorem allocateStockFEFO_feasibility_witness:
  "feasible (allocateStockFEFO fefoDb ''i1'' 6) \<and> (0::int) < 6
   \<and> sum_list (map qty (allocation (allocateStockFEFO fefoDb ''i1'' 6))) = 6
   \<and> length (allocation (allocateStockFEFO fefoDb ''i1'' 6)) = 2
   \<and> \<not> feasible (allocateStockFEFO fefoDb ''i1'' 20)
   \<and> shortfall (allocateStockFEFO fefoDb ''i1'' 20) = Some 9
   \<and> sum_list (map qty (allocation (allocateStockFEFO fefoDb ''i1'' 20))) = 11
   \<and> allocation (allocateStockFEFO fefoDb ''i1'' (- 3)) = []"
  using allocateStockFEFO_feasibility [of fefoDb "''i1''" 6]
    allocateStockFEFO_feasibility [of fefoDb "''i1''" 20]
    allocateStockFEFO_feasibility [of fefoDb "''i1''" "- 3"]
  by (simp add: allocateStockFEFO_def fefoDb_batches)

text \<open>The allocation follows the batches of the query position by position.\<close>

lemma allocation_expiry_prefix:
  "map expiry (snd (allocateLoop bs r [])) =
     map expiryDate (take (length (snd (allocateLoop bs r []))) bs)"
  using allocateLoop_length [of bs r] allocateLoop_entry [of _ bs r]
  by (auto intro!: nth_equalityI)

lemma allocation_batchId_prefix:
  "map batchId (snd (allocateLoop bs r [])) =
     map batch_id (take (length (snd (allocateLoop bs r []))) bs)"
  using allocateLoop_length [of bs r] allocateLoop_entry [of _ bs r]
  by (auto intro!: nth_equalityI)

text \<open>
  C3: \<open>allocateStockFEFO\<close> allocates first-expired-first-out. The allocation runs
  through the batches of the item in ascending order of expiry date, as a prefix of the
  query result; every entry except the last one takes its batch whole; hence, whenever a
  batch contributes, every positive-quantity batch of the item that expires earlier is in
  the allocation with its full quantity.
\<close>

theorem allocateStockFEFO_first_expired_first_out:
  "sorted (map expiry (allocation (allocateStockFEFO d i q)))
   \<and> map batchId (allocation (allocateStockFEFO d i q)) =
       map batch_id (take (length (allocation (allocateStockFEFO d i q))) (fefoBatches d i))
   \<and> (\<forall>k. Suc k < length (allocation (allocateStockFEFO d i q)) \<longrightarrow>
         qty (allocation (allocateStockFEFO d i q) ! k) = quantity (fefoBatches d i ! k))
   \<and> (\<forall>e \<in> set (allocation (allocateStockFEFO d i q)).
       \<forall>b \<in> set (inventoryBatches d).
         itemId b = i \<and> 0 < quantity b \<and> expiryDate b < expiry e \<longrightarrow>
         (\<exists>e' \<in> set (allocation (allocateStockFEFO d i q)).
            batchId e' = batch_id b \<and> qty e' = quantity b))"
proof -
  let ?bs = "fefoBatches d i"
  let ?es = "allocation (allocateStockFEFO d i q)"
  have es: "?es = snd (allocateLoop ?bs q [])" by (rule allocation_eq)
  have len: "length ?es \<le> length ?bs" by (simp add: es allocateLoop_length)
  have srt: "sorted (map expiryDate ?bs)" by (rule fefoBatches_sorted)
  have "sorted (map expiryDate (take (length ?es) ?bs))"
    using srt by (simp add: take_map [symmetric])
  then have p1: "sorted (map expiry ?es)"
    by (simp add: es allocation_expiry_prefix [symmetric])
  have p2: "map batchId ?es = map batch_id (take (length ?es) ?bs)"
    by (simp add: es allocation_batchId_prefix [symmetric])
  have p3: "\<forall>k. Suc k < length ?es \<longrightarrow> qty (?es ! k) = quantity (?bs ! k)"
    by (simp add: es allocateLoop_full)
  have p4: "\<forall>e \<in> set ?es. \<forall>b \<in> set (inventoryBatches d).
         itemId b = i \<and> 0 < quantity b \<and> expiryDate b < expiry e \<longrightarrow>
         (\<exists>e' \<in> set ?es. batchId e' = batch_id b \<and> qty e' = quantity b)"
  proof (intro ballI impI)
    fix e b
    assume e: "e \<in> set ?es" and b: "b \<in> set (inventoryBatches d)"
      and h: "itemId b = i \<and> 0 < quantity b \<and> expiryDate b < expiry e"
    from e obtain j where j: "j < length ?es" and ej: "?es ! j = e"
      by (auto simp: in_set_conv_nth)
    from b h have "b \<in> set ?bs" by (simp add: fefoBatches_set)
    then obtain m where m: "m < length ?bs" and bm: "?bs ! m = b"
      by (auto simp: in_set_conv_nth)
    have expj: "expiry e = expiryDate (?bs ! j)"
      using allocateLoop_entry [of j ?bs q] j ej by (simp add: es)
    have "m < j"
    proof (rule ccontr)
      assume "\<not> m < j"
      then have "j \<le> m" by simp
      then have "map expiryDate ?bs ! j \<le> map expiryDate ?bs ! m"
        using srt m by (simp add: sorted_iff_nth_mono del: nth_map)
      then have "expiryDate (?bs ! j) \<le> expiryDate (?bs ! m)"
        using m \<open>j \<le> m\<close> by simp
      then show False using h expj bm by simp
    qed
    then have sm: "Suc m < length ?es" using j by simp
    then have q: "qty (?es ! m) = quantity b" using p3 bm by simp
    have "batchId (?es ! m) = batch_id b"
      using allocateLoop_entry [of m ?bs q] sm bm by (simp add: es)
    moreover have "?es ! m \<in> set ?es" using sm by simp
    ultimately show "\<exists>e' \<in> set ?es. batchId e' = batch_id b \<and> qty e' = quantity b"
      using q by blast
  qed
  show ?thesis using p1 p2 p3 p4 by blast
qed

text \<open>A request for six units takes the batch expiring first whole and one unit of the next.\<close>

theorem allocateStockFEFO_first_expired_first_out_witness:
  "allocation (allocateStockFEFO fefoDb ''i1'' 6) =
     [\<lparr> batchId = ''b1'', qty = 5, expiry = 100, entry_batchNumber = ''B-1'' \<rparr>,
      \<lparr> batchId = ''b2'', qty = 1, expiry = 200, entry_batchNumber = ''B-2'' \<rparr>]
   \<and> \<lparr> batch_id = ''b1'', itemId = ''i1'', quantity = 5, expiryDate = 100,
        batchNumber = ''B-1'' \<rparr> \<in> set (inventoryBatches fefoDb)
   \<and> (100::int) < 200
   \<and> Suc 0 < length (allocation (allocateStockFEFO fefoDb ''i1'' 6))
   \<and> qty (allocation (allocateStockFEFO fefoDb ''i1'' 6) ! 0) =
       quantity (fefoBatches fefoDb ''i1'' ! 0)"
  using allocateStockFEFO_first_expired_first_out [of fefoDb "''i1''" 6]
  by (simp add: allocateStockFEFO_def fefoDb_batches) (simp add: fefoDb_def)

section \<open>Properties of parseInt\<close>

text \<open>
  A number of a JSON body reads back as itself: \<open>parseInt\<close> of the decimal string of an
  integer of the request type is that integer.
\<close>

lemma js_literals:
  "js ''-'' = [45]" "js ''+'' = [43]" "js ''0x'' = [48, 120]" "js ''0X'' = [48, 88]"
  by (simp_all add: js_def)

lemma digit_code_unit: "d < 10 \<Longrightarrow> radixDigit 10 (48 + d) = Some d"
  by (simp add: radixDigit_def digitValue_def)

lemma digit_plain:
  "48 \<le> c \<Longrightarrow> c \<le> 57 \<Longrightarrow> \<not> isWhiteSpace c \<and> c \<noteq> 45 \<and> c \<noteq> 43 \<and> c \<noteq> 120 \<and> c \<noteq> 88"
  by (auto simp: isWhiteSpace_def)

text \<open>Reading a run of digits and then the rest.\<close>

lemma parseDigits_snoc:
  "\<forall>c \<in> set xs. radixDigit R c \<noteq> None \<Longrightarrow>
   parseDigits R (xs @ ys) acc = parseDigits R ys (parseDigits R xs acc)"
  by (induction xs arbitrary: acc) (auto split: option.splits)

lemma digitsOf_digits: "c \<in> set (digitsOf m) \<Longrightarrow> 48 \<le> c \<and> c \<le> 57"
proof (induction m arbitrary: c rule: digitsOf.induct)
  case (1 n)
  show ?case
  proof (cases "n < 10")
    case True
    then have "c = 48 + n"
      using "1.prems" by (subst (asm) digitsOf.simps) simp
    then show ?thesis using True by simp
  next
    case False
    then have "c \<in> set (digitsOf (n div 10)) \<or> c = 48 + n mod 10"
      using "1.prems" by (subst (asm) digitsOf.simps) auto
    then show ?thesis
    proof
      assume "c \<in> set (digitsOf (n div 10))"
      then show ?thesis using "1.IH" False by blast
    next
      assume c: "c = 48 + n mod 10"
      have "n mod 10 < 10" by simp
      then show ?thesis using c by linarith
    qed
  qed
qed

lemma digitsOf_radix: "c \<in> set (digitsOf m) \<Longrightarrow> radixDigit 10 c \<noteq> None"
proof -
  assume "c \<in> set (digitsOf m)"
  then have "48 \<le> c \<and> c \<le> 57" by (rule digitsOf_digits)
  then show ?thesis by (auto simp: radixDigit_def digitValue_def)
qed

lemma digitsOf_nonempty: "digitsOf m \<noteq> []"
  by (subst digitsOf.simps) simp

lemma parseDigits_digitsOf: "parseDigits 10 (digitsOf m) None = Some m"
proof (induction m rule: digitsOf.induct)
  case (1 n)
  show ?case
  proof (cases "n < 10")
    case True
    then show ?thesis
      by (subst digitsOf.simps) (simp add: digit_code_unit)
  next
    case False
    have all: "\<forall>c \<in> set (digitsOf (n div 10)). radixDigit 10 c \<noteq> None"
      using digitsOf_radix by blast
    have "parseDigits 10 (digitsOf n) None =
        parseDigits 10 (digitsOf (n div 10) @ [48 + n mod 10]) None"
      using False by (subst digitsOf.simps) simp
    also have "\<dots> = parseDigits 10 [48 + n mod 10] (Some (n div 10))"
      using "1.IH" False all by (simp add: parseDigits_snoc del: parseDigits.simps)
    also have "\<dots> = Some n"
      by (simp add: digit_code_unit)
    finally show ?thesis .
  qed
qed

lemma digitsOf_no_prefix:
  "take 2 (digitsOf m) \<noteq> [48, 120] \<and> take 2 (digitsOf m) \<noteq> [48, 88]"
proof (cases "digitsOf m")
  case Nil
  then show ?thesis by simp
next
  case (Cons c cs)
  show ?thesis
  proof (cases cs)
    case Nil
    then show ?thesis using Cons by simp
  next
    case (Cons e es)
    then have "e \<in> set (digitsOf m)" using \<open>digitsOf m = c # cs\<close> by simp
    then have "e \<noteq> 120 \<and> e \<noteq> 88"
      using digitsOf_digits [of e m] digit_plain [of e] by simp
    then show ?thesis using Cons \<open>digitsOf m = c # cs\<close> by simp
  qed
qed

lemma parseInt_digitsOf: "parseInt (digitsOf m) = toNumber (int m)"
proof -
  obtain c cs where s: "digitsOf m = c # cs"
    using digitsOf_nonempty [of m] by (cases "digitsOf m") auto
  have c: "\<not> isWhiteSpace c \<and> c \<noteq> 45 \<and> c \<noteq> 43"
    using digitsOf_digits [of c m] digit_plain [of c] s by simp
  have d: "dropWhile isWhiteSpace (digitsOf m) = digitsOf m"
    using s c by simp
  have t: "take 1 (digitsOf m) \<noteq> [45] \<and> take 1 (digitsOf m) \<noteq> [43]"
    using s c by simp
  show ?thesis
    unfolding parseInt_def Let_def d js_literals
    using t digitsOf_no_prefix [of m] by (simp add: parseDigits_digitsOf)
qed

lemma parseInt_minus_digitsOf: "parseInt (45 # digitsOf m) = toNumber (- int m)"
proof -
  have d: "dropWhile isWhiteSpace (45 # digitsOf m) = 45 # digitsOf m"
    by (simp add: isWhiteSpace_def)
  show ?thesis
    unfolding parseInt_def Let_def d js_literals
    using digitsOf_no_prefix [of m] by (simp add: parseDigits_digitsOf)
qed

lemma parseInt_number: "parseInt (toStringJS (Num w)) = Fin (sint w)"
proof -
  have "- (2 ^ 53) \<le> sint w" using sint_ge [of w] by simp
  moreover have "sint w < 2 ^ 53" using sint_lt [of w] by simp
  ultimately have b: "\<bar>sint w\<bar> \<le> 2 ^ 53" by simp
  show ?thesis
  proof (cases "sint w < 0")
    case True
    then have "parseInt (toStringJS (Num w)) = toNumber (- int (nat (- sint w)))"
      by (simp add: parseInt_minus_digitsOf)
    also have "\<dots> = toNumber (sint w)" using True by simp
    finally show ?thesis using b by (simp add: toNumber_exact)
  next
    case False
    then have "parseInt (toStringJS (Num w)) = toNumber (int (nat (sint w)))"
      by (simp add: parseInt_digitsOf)
    also have "\<dots> = toNumber (sint w)" using False by simp
    finally show ?thesis using b by (simp add: toNumber_exact)
  qed
qed

text \<open>
  Text without a leading number, an empty string and \<open>undefined\<close> give \<open>NaN\<close>; a
  number is read up to the first character that is not a digit, after white space
  (a no-break space included) and a sign, in radix 16 after \<open>0x\<close>.
\<close>

lemma parseInt_examples:
  "parseInt (js ''abc'') = NaN"
  "parseInt (js []) = NaN"
  "parseInt (js ''undefined'') = NaN"
  "parseInt (js ''0'') = Fin 0"
  "parseInt (js ''-0'') = Fin 0"
  "parseInt (js ''30'') = Fin 30"
  "parseInt (js ''-9'') = Fin (- 9)"
  "parseInt (js ''12px'') = Fin 12"
  "parseInt (js ''0x1F'') = Fin 31"
  "parseInt (0xA0 # js ''30'') = Fin 30"
  "parseInt (js ''1000000000'') = Fin 1000000000"
  by (simp_all add: parseInt_def js_def isWhiteSpace_def radixDigit_def digitValue_def
      toNumber_exact)

section \<open>Properties of InventoryController.adjustStock\<close>

text \<open>Reading a batch back after an update, and what the two writes do when the store takes them.\<close>

lemma find_map_update:
  "find (\<lambda>b. batch_id b = bid)
     (map (\<lambda>b. if batch_id b = k then b\<lparr> quantity := q \<rparr> else b) bs) =
   map_option (\<lambda>b. if batch_id b = k then b\<lparr> quantity := q \<rparr> else b)
     (find (\<lambda>b. batch_id b = bid) bs)"
  by (induction bs) auto

lemma findUnique_id: "findUnique d bid = Some b \<Longrightarrow> batch_id b = bid"
  by (auto simp: findUnique_def find_Some_iff)

lemma updateQuantity_Inr:
  "updateQuantity sch k q d = Inr d1 \<Longrightarrow>
   \<exists>n. q = Fin n \<and> acceptsQuantity sch n
     \<and> d1 = d\<lparr> inventoryBatches :=
                  map (\<lambda>b. if batch_id b = k then b\<lparr> quantity := n \<rparr> else b)
                    (inventoryBatches d) \<rparr>"
  by (auto simp: updateQuantity_def split: jsNumber.splits if_splits)

lemma createTransaction_Inr:
  "createTransaction sch t d1 = Inr d2 \<Longrightarrow>
   acceptsTransaction sch d1 t \<and> d2 = d1\<lparr> inventoryTransactions := inventoryTransactions d1 @ [t] \<rparr>"
  by (auto simp: createTransaction_def split: if_splits)

text \<open>
  The controller answers with what the callback returned and its store, or with status 400
  and the store as it was before the transaction.
\<close>

lemma adjustStock_result:
  "adjustStock sch req d =
     (case adjustStockTx sch req d of
        (Inr n, d') \<Rightarrow> (json n, d')
      | (Inl e, d') \<Rightarrow> (\<lparr> status = 400, body = Inl e \<rparr>, d))"
  by (simp add: adjustStock_def transaction_def split: prod.splits sum.splits)

text \<open>The callback returns a new quantity exactly on the path where every step succeeds.\<close>

lemma adjustStockTx_success:
  "req_batchId req = Some bid \<Longrightarrow> findUnique d bid = Some b \<Longrightarrow>
   parseInt (toStringJS (req_quantityChange req)) = Fin c \<Longrightarrow>
   jsAdd (toNumber (quantity b)) (Fin c) = Fin n \<Longrightarrow> 0 \<le> n \<Longrightarrow>
   updateQuantity sch bid (Fin n) d = Inr mid \<Longrightarrow>
   createTransaction sch (adjustmentRecord req bid c) mid = Inr fin \<Longrightarrow>
   adjustStockTx sch req d = (Inr n, fin)"
  by (simp add: adjustStockTx_def Let_def)

lemma adjustStockTx_Inr:
  assumes "adjustStockTx sch req d = (Inr n, d2)"
  shows "\<exists>bid b c d1. req_batchId req = Some bid \<and> findUnique d bid = Some b
     \<and> parseInt (toStringJS (req_quantityChange req)) = Fin c
     \<and> jsAdd (toNumber (quantity b)) (Fin c) = Fin n \<and> 0 \<le> n
     \<and> updateQuantity sch bid (Fin n) d = Inr d1
     \<and> createTransaction sch (adjustmentRecord req bid c) d1 = Inr d2"
proof -
  from assms obtain bid where bid: "req_batchId req = Some bid"
    by (cases "req_batchId req") (auto simp: adjustStockTx_def)
  from assms bid obtain b where b: "findUnique d bid = Some b"
    by (cases "findUnique d bid") (auto simp: adjustStockTx_def)
  let ?change = "parseInt (toStringJS (req_quantityChange req))"
  let ?newQty = "jsAdd (toNumber (quantity b)) ?change"
  have nn: "\<not> jsNegative ?newQty"
    using assms bid b by (auto simp: adjustStockTx_def Let_def split: if_splits)
  from assms bid b nn obtain d1 where d1: "updateQuantity sch bid ?newQty d = Inr d1"
    by (cases "updateQuantity sch bid ?newQty d") (auto simp: adjustStockTx_def Let_def)
  then obtain m where m: "?newQty = Fin m"
    using updateQuantity_Inr by blast
  then obtain c where c: "?change = Fin c"
    using jsAdd_Fin by blast
  have rest: "(case createTransaction sch (adjustmentRecord req bid c) d1 of
        Inl e \<Rightarrow> (Inl e, d1) | Inr tx2 \<Rightarrow> (Inr m, tx2)) = (Inr n, d2)"
    using assms bid b nn d1 m c by (simp add: adjustStockTx_def Let_def)
  then obtain d2' where cr: "createTransaction sch (adjustmentRecord req bid c) d1 = Inr d2'"
    by (cases "createTransaction sch (adjustmentRecord req bid c) d1") auto
  with rest have "m = n" "d2' = d2" by simp_all
  moreover have "0 \<le> m" using nn m by simp
  ultimately show ?thesis using bid b c m d1 cr by auto
qed

text \<open>Batch \<open>b1\<close> of \<open>fefoDb\<close> holds five units.\<close>

lemma fefoDb_b1:
  "findUnique fefoDb ''b1'' =
     Some \<lparr> batch_id = ''b1'', itemId = ''i1'', quantity = 5, expiryDate = 100,
            batchNumber = ''B-1'' \<rparr>"
  by (simp add: findUnique_def fefoDb_def)

text \<open>
  C9 (as stated) fails: the request can fail although the batch exists and the resulting
  quantity would not be negative. For \<open>quantityChange = "abc"\<close> on batch \<open>b1\<close>,
  \<open>parseInt\<close> gives \<open>NaN\<close>, the test \<open>newQty < 0\<close> is false, the store refuses the
  update, and the answer is status 400 with nothing changed, where the claim has the
  quantity updated and a record appended.
\<close>

theorem adjustStock_not_a_number:
  "findUnique fefoDb ''b1'' =
     Some \<lparr> batch_id = ''b1'', itemId = ''i1'', quantity = 5, expiryDate = 100,
            batchNumber = ''B-1'' \<rparr>
   \<and> parseInt (toStringJS (Str (js ''abc''))) = NaN
   \<and> \<not> jsNegative (jsAdd (toNumber 5) (parseInt (toStringJS (Str (js ''abc'')))))
   \<and> adjustStock exampleSchema (adjustReq (Some ''i1'') ''b1'' (Str (js ''abc''))) fefoDb =
       (\<lparr> status = 400, body = Inl StoreRefused \<rparr>, fefoDb)"
  by (simp add: fefoDb_b1 parseInt_examples toNumber_exact adjustStock_result adjustStockTx_def
      adjustReq_def updateQuantity_def)

text \<open>
  C9 (amended): \<open>adjustStock\<close> is all-or-nothing. Every request ends either in a success
  or in status 400 with the store (batch quantities and transaction log) unchanged. It fails
  with status 400 when the batch id is absent or the batch does not exist, when
  \<open>parseInt(quantityChange)\<close> is not a finite number, and when the quantity of the batch
  plus the parsed change is negative. When the batch exists, the new quantity is not
  negative and the store takes the update and the record, the answer is a success carrying
  the new quantity, the batch holds its old quantity plus the parsed change, every other
  batch is as before, and exactly one \<open>ADJUSTMENT\<close> record has been appended to the
  transaction log. A success happens in no other case: when the store refuses the new
  quantity or the record, the request fails and the update already made is discarded.
\<close>

theorem adjustStock_all_or_nothing:
  "(status (fst (adjustStock sch req d)) = 200
      \<or> (status (fst (adjustStock sch req d)) = 400 \<and> snd (adjustStock sch req d) = d))
   \<and> (req_batchId req = None \<or> (\<exists>bid. req_batchId req = Some bid \<and> findUnique d bid = None)
        \<longrightarrow> status (fst (adjustStock sch req d)) = 400)
   \<and> (\<forall>bid b. req_batchId req = Some bid \<and> findUnique d bid = Some b
          \<and> (jsNegative (jsAdd (toNumber (quantity b))
                 (parseInt (toStringJS (req_quantityChange req))))
              \<or> (\<forall>c. parseInt (toStringJS (req_quantityChange req)) \<noteq> Fin c))
        \<longrightarrow> status (fst (adjustStock sch req d)) = 400)
   \<and> (\<forall>bid b c n d1 d2.
         req_batchId req = Some bid \<and> findUnique d bid = Some b
         \<and> parseInt (toStringJS (req_quantityChange req)) = Fin c
         \<and> jsAdd (toNumber (quantity b)) (Fin c) = Fin n \<and> 0 \<le> n
         \<and> updateQuantity sch bid (Fin n) d = Inr d1
         \<and> createTransaction sch (adjustmentRecord req bid c) d1 = Inr d2
        \<longrightarrow> adjustStock sch req d = (\<lparr> status = 200, body = Inr n \<rparr>, d2)
          \<and> findUnique d2 bid = Some (b\<lparr> quantity := n \<rparr>)
          \<and> (\<forall>other. other \<noteq> bid \<longrightarrow> findUnique d2 other = findUnique d other)
          \<and> map batch_id (inventoryBatches d2) = map batch_id (inventoryBatches d)
          \<and> inventoryTransactions d2 = inventoryTransactions d @ [adjustmentRecord req bid c]
          \<and> changeType (adjustmentRecord req bid c) = ''ADJUSTMENT''
          \<and> items d2 = items d \<and> categories d2 = categories d
          \<and> (\<bar>quantity b\<bar> \<le> 2 ^ 53 \<and> \<bar>quantity b + c\<bar> \<le> 2 ^ 53 \<longrightarrow> n = quantity b + c))
   \<and> (status (fst (adjustStock sch req d)) = 200 \<longrightarrow>
        (\<exists>bid b c n d1 d2.
           req_batchId req = Some bid \<and> findUnique d bid = Some b
           \<and> parseInt (toStringJS (req_quantityChange req)) = Fin c
           \<and> jsAdd (toNumber (quantity b)) (Fin c) = Fin n \<and> 0 \<le> n
           \<and> updateQuantity sch bid (Fin n) d = Inr d1
           \<and> createTransaction sch (adjustmentRecord req bid c) d1 = Inr d2))"
proof -
  let ?r = "adjustStock sch req d"
  have only: "status (fst ?r) = 200 \<longrightarrow>
        (\<exists>bid b c n d1 d2.
           req_batchId req = Some bid \<and> findUnique d bid = Some b
           \<and> parseInt (toStringJS (req_quantityChange req)) = Fin c
           \<and> jsAdd (toNumber (quantity b)) (Fin c) = Fin n \<and> 0 \<le> n
           \<and> updateQuantity sch bid (Fin n) d = Inr d1
           \<and> createTransaction sch (adjustmentRecord req bid c) d1 = Inr d2)"
  proof
    assume ok: "status (fst ?r) = 200"
    obtain x d' where x: "adjustStockTx sch req d = (x, d')"
      by (cases "adjustStockTx sch req d") auto
    then obtain n where "x = Inr n"
      using ok by (cases x) (auto simp: adjustStock_result)
    then have "adjustStockTx sch req d = (Inr n, d')" using x by simp
    then show "\<exists>bid b c n d1 d2.
           req_batchId req = Some bid \<and> findUnique d bid = Some b
           \<and> parseInt (toStringJS (req_quantityChange req)) = Fin c
           \<and> jsAdd (toNumber (quantity b)) (Fin c) = Fin n \<and> 0 \<le> n
           \<and> updateQuantity sch bid (Fin n) d = Inr d1
           \<and> createTransaction sch (adjustmentRecord req bid c) d1 = Inr d2"
      using adjustStockTx_Inr by blast
  qed
  have all: "status (fst ?r) = 200 \<or> (status (fst ?r) = 400 \<and> snd ?r = d)"
    by (auto simp: adjustStock_result json_def split: prod.splits sum.splits)
  have st: "status (fst ?r) \<noteq> 200 \<Longrightarrow> status (fst ?r) = 400" using all by blast
  have missing: "req_batchId req = None \<or> (\<exists>bid. req_batchId req = Some bid \<and> findUnique d bid = None)
        \<longrightarrow> status (fst ?r) = 400"
    using only st by force
  have bad: "\<forall>bid b. req_batchId req = Some bid \<and> findUnique d bid = Some b
          \<and> (jsNegative (jsAdd (toNumber (quantity b))
                 (parseInt (toStringJS (req_quantityChange req))))
              \<or> (\<forall>c. parseInt (toStringJS (req_quantityChange req)) \<noteq> Fin c))
        \<longrightarrow> status (fst ?r) = 400"
  proof (intro allI impI)
    fix bid b
    assume h: "req_batchId req = Some bid \<and> findUnique d bid = Some b
          \<and> (jsNegative (jsAdd (toNumber (quantity b))
                 (parseInt (toStringJS (req_quantityChange req))))
              \<or> (\<forall>c. parseInt (toStringJS (req_quantityChange req)) \<noteq> Fin c))"
    have "status (fst ?r) \<noteq> 200"
    proof
      assume "status (fst ?r) = 200"
      then obtain bid' b' c n where
        "req_batchId req = Some bid'" "findUnique d bid' = Some b'"
        "parseInt (toStringJS (req_quantityChange req)) = Fin c"
        "jsAdd (toNumber (quantity b')) (Fin c) = Fin n" "0 \<le> n"
        using only by blast
      then show False using h by auto
    qed
    then show "status (fst ?r) = 400" by (rule st)
  qed
  have good: "\<forall>bid b c n d1 d2.
         req_batchId req = Some bid \<and> findUnique d bid = Some b
         \<and> parseInt (toStringJS (req_quantityChange req)) = Fin c
         \<and> jsAdd (toNumber (quantity b)) (Fin c) = Fin n \<and> 0 \<le> n
         \<and> updateQuantity sch bid (Fin n) d = Inr d1
         \<and> createTransaction sch (adjustmentRecord req bid c) d1 = Inr d2
        \<longrightarrow> ?r = (\<lparr> status = 200, body = Inr n \<rparr>, d2)
          \<and> findUnique d2 bid = Some (b\<lparr> quantity := n \<rparr>)
          \<and> (\<forall>other. other \<noteq> bid \<longrightarrow> findUnique d2 other = findUnique d other)
          \<and> map batch_id (inventoryBatches d2) = map batch_id (inventoryBatches d)
          \<and> inventoryTransactions d2 = inventoryTransactions d @ [adjustmentRecord req bid c]
          \<and> changeType (adjustmentRecord req bid c) = ''ADJUSTMENT''
          \<and> items d2 = items d \<and> categories d2 = categories d
          \<and> (\<bar>quantity b\<bar> \<le> 2 ^ 53 \<and> \<bar>quantity b + c\<bar> \<le> 2 ^ 53 \<longrightarrow> n = quantity b + c)"
  proof (intro allI impI)
    fix bid b c n d1 d2
    assume h: "req_batchId req = Some bid \<and> findUnique d bid = Some b
         \<and> parseInt (toStringJS (req_quantityChange req)) = Fin c
         \<and> jsAdd (toNumber (quantity b)) (Fin c) = Fin n \<and> 0 \<le> n
         \<and> updateQuantity sch bid (Fin n) d = Inr d1
         \<and> createTransaction sch (adjustmentRecord req bid c) d1 = Inr d2"
    then have tx: "adjustStockTx sch req d = (Inr n, d2)"
      by (intro adjustStockTx_success [where bid = bid and b = b and c = c and mid = d1]) simp_all
    have d1: "d1 = d\<lparr> inventoryBatches :=
                  map (\<lambda>x. if batch_id x = bid then x\<lparr> quantity := n \<rparr> else x)
                    (inventoryBatches d) \<rparr>"
      using h updateQuantity_Inr [of sch bid "Fin n" d d1] by simp
    have d2: "d2 = d1\<lparr> inventoryTransactions :=
                  inventoryTransactions d1 @ [adjustmentRecord req bid c] \<rparr>"
      using h createTransaction_Inr by blast
    have bid: "batch_id b = bid" using h by (auto dest: findUnique_id)
    have g1: "?r = (\<lparr> status = 200, body = Inr n \<rparr>, d2)"
      by (simp add: adjustStock_result tx json_def)
    have g2: "findUnique d2 bid = Some (b\<lparr> quantity := n \<rparr>)"
      using h bid by (simp add: d2 d1 findUnique_def find_map_update)
    have g3: "\<forall>other. other \<noteq> bid \<longrightarrow> findUnique d2 other = findUnique d other"
    proof (intro allI impI)
      fix other
      assume o: "other \<noteq> bid"
      show "findUnique d2 other = findUnique d other"
      proof (cases "findUnique d other")
        case None
        then show ?thesis by (simp add: d2 d1 findUnique_def find_map_update)
      next
        case (Some x)
        then have "batch_id x = other" by (auto dest: findUnique_id)
        then show ?thesis using Some o by (simp add: d2 d1 findUnique_def find_map_update)
      qed
    qed
    have g4: "map batch_id (inventoryBatches d2) = map batch_id (inventoryBatches d)"
      by (simp add: d2 d1 comp_def)
    have g5: "inventoryTransactions d2 = inventoryTransactions d @ [adjustmentRecord req bid c]"
      by (simp add: d2 d1)
    have g6: "changeType (adjustmentRecord req bid c) = ''ADJUSTMENT''"
      by (simp add: adjustmentRecord_def)
    have g7: "items d2 = items d \<and> categories d2 = categories d"
      by (simp add: d2 d1)
    have g8: "\<bar>quantity b\<bar> \<le> 2 ^ 53 \<and> \<bar>quantity b + c\<bar> \<le> 2 ^ 53 \<longrightarrow> n = quantity b + c"
      using h jsAdd_exact [of "quantity b" c] by auto
    show "?r = (\<lparr> status = 200, body = Inr n \<rparr>, d2)
          \<and> findUnique d2 bid = Some (b\<lparr> quantity := n \<rparr>)
          \<and> (\<forall>other. other \<noteq> bid \<longrightarrow> findUnique d2 other = findUnique d other)
          \<and> map batch_id (inventoryBatches d2) = map batch_id (inventoryBatches d)
          \<and> inventoryTransactions d2 = inventoryTransactions d @ [adjustmentRecord req bid c]
          \<and> changeType (adjustmentRecord req bid c) = ''ADJUSTMENT''
          \<and> items d2 = items d \<and> categories d2 = categories d
          \<and> (\<bar>quantity b\<bar> \<le> 2 ^ 53 \<and> \<bar>quantity b + c\<bar> \<le> 2 ^ 53 \<longrightarrow> n = quantity b + c)"
      using g1 g2 g3 g4 g5 g6 g7 g8 by blast
  qed
  show ?thesis using all missing bad good only by blast
qed

text \<open>The number -3 of a request.\<close>

lemma sint_minus_three: "sint (- 3 :: 54 word) = - 3"
  by simp

text \<open>
  On batch \<open>b1\<close> of five units: a change of -3 succeeds; the same change without an item
  id passes the update and is refused at the record, so the update is rolled back; a
  change of -9 would make the quantity negative; batch \<open>zz\<close> does not exist.
\<close>

theorem adjustStock_all_or_nothing_witness:
  "findUnique fefoDb ''b1'' =
     Some \<lparr> batch_id = ''b1'', itemId = ''i1'', quantity = 5, expiryDate = 100,
            batchNumber = ''B-1'' \<rparr>
   \<and> parseInt (toStringJS (Num (- 3))) = Fin (- 3)
   \<and> jsAdd (toNumber 5) (Fin (- 3)) = Fin 2
   \<and> fst (adjustStock exampleSchema (adjustReq (Some ''i1'') ''b1'' (Num (- 3))) fefoDb) =
       \<lparr> status = 200, body = Inr 2 \<rparr>
   \<and> findUnique (snd (adjustStock exampleSchema (adjustReq (Some ''i1'') ''b1'' (Num (- 3))) fefoDb))
         ''b1'' =
       Some \<lparr> batch_id = ''b1'', itemId = ''i1'', quantity = 2, expiryDate = 100,
              batchNumber = ''B-1'' \<rparr>
   \<and> inventoryTransactions
         (snd (adjustStock exampleSchema (adjustReq (Some ''i1'') ''b1'' (Num (- 3))) fefoDb)) =
       [\<lparr> tx_itemId = Some ''i1'', tx_batchId = ''b1'', changeType = ''ADJUSTMENT'',
          quantityChange = - 3, referenceId = ''MANUAL'' \<rparr>]
   \<and> (\<exists>d1. updateQuantity exampleSchema ''b1'' (Fin 2) fefoDb = Inr d1
          \<and> createTransaction exampleSchema
               (adjustmentRecord (adjustReq None ''b1'' (Num (- 3))) ''b1'' (- 3)) d1
              = Inl StoreRefused)
   \<and> adjustStock exampleSchema (adjustReq None ''b1'' (Num (- 3))) fefoDb =
       (\<lparr> status = 400, body = Inl StoreRefused \<rparr>, fefoDb)
   \<and> jsNegative (jsAdd (toNumber 5) (parseInt (toStringJS (Str (js ''-9'')))))
   \<and> adjustStock exampleSchema (adjustReq (Some ''i1'') ''b1'' (Str (js ''-9''))) fefoDb =
       (\<lparr> status = 400, body = Inl (Error ''Resulting quantity cannot be negative'') \<rparr>, fefoDb)
   \<and> findUnique fefoDb ''zz'' = None
   \<and> adjustStock exampleSchema (adjustReq (Some ''i1'') ''zz'' (Num (- 3))) fefoDb =
       (\<lparr> status = 400, body = Inl (Error ''Batch not found'') \<rparr>, fefoDb)"
proof -
  have p: "parseInt (toStringJS (Num (- 3))) = Fin (- 3)"
    using parseInt_number [of "- 3"] by (simp only: sint_minus_three)
  have a: "jsAdd (toNumber 5) (Fin (- 3)) = Fin 2"
    by (simp add: toNumber_exact)
  have n: "jsAdd (toNumber 5) (Fin (- 9)) = Fin (- 4)"
    by (simp add: toNumber_exact)
  have z: "findUnique fefoDb ''zz'' = None"
    by (simp add: findUnique_def fefoDb_def)
  have u: "updateQuantity exampleSchema ''b1'' (Fin 2) fefoDb =
      Inr (fefoDb\<lparr> inventoryBatches :=
             map (\<lambda>b. if batch_id b = ''b1'' then b\<lparr> quantity := 2 \<rparr> else b)
               (inventoryBatches fefoDb) \<rparr>)"
    by (simp add: updateQuantity_def exampleSchema_def)
  let ?d1 = "fefoDb\<lparr> inventoryBatches :=
             map (\<lambda>b. if batch_id b = ''b1'' then b\<lparr> quantity := 2 \<rparr> else b)
               (inventoryBatches fefoDb) \<rparr>"
  let ?rec = "\<lparr> tx_itemId = Some ''i1'', tx_batchId = ''b1'', changeType = ''ADJUSTMENT'',
                quantityChange = - 3, referenceId = ''MANUAL'' \<rparr>"
  have rec: "adjustmentRecord (adjustReq (Some ''i1'') ''b1'' (Num (- 3))) ''b1'' (- 3) = ?rec"
    by (simp add: adjustmentRecord_def adjustReq_def reasonOrManual_def)
  have c1: "createTransaction exampleSchema ?rec ?d1 =
      Inr (?d1\<lparr> inventoryTransactions := inventoryTransactions ?d1 @ [?rec] \<rparr>)"
    by (simp add: createTransaction_def exampleSchema_def fefoDb_def)
  have c0: "createTransaction exampleSchema
      (adjustmentRecord (adjustReq None ''b1'' (Num (- 3))) ''b1'' (- 3)) ?d1 = Inl StoreRefused"
    by (simp add: createTransaction_def exampleSchema_def adjustmentRecord_def adjustReq_def)
  have tx_ok: "adjustStockTx exampleSchema (adjustReq (Some ''i1'') ''b1'' (Num (- 3))) fefoDb =
      (Inr 2, ?d1\<lparr> inventoryTransactions := inventoryTransactions ?d1 @ [?rec] \<rparr>)"
    using fefoDb_b1 p a u c1 rec
    by (intro adjustStockTx_success
          [where bid = "''b1''" and c = "- 3" and mid = ?d1
             and b = "\<lparr> batch_id = ''b1'', itemId = ''i1'', quantity = 5, expiryDate = 100,
                       batchNumber = ''B-1'' \<rparr>"])
      (simp_all add: adjustReq_def del: toStringJS.simps)
  have ok: "adjustStock exampleSchema (adjustReq (Some ''i1'') ''b1'' (Num (- 3))) fefoDb =
      (\<lparr> status = 200, body = Inr 2 \<rparr>,
       ?d1\<lparr> inventoryTransactions := inventoryTransactions ?d1 @ [?rec] \<rparr>)"
    by (simp only: adjustStock_result tx_ok) (simp add: json_def)
  have tx_rb: "adjustStockTx exampleSchema (adjustReq None ''b1'' (Num (- 3))) fefoDb =
      (Inl StoreRefused, ?d1)"
  proof -
    have q: "req_batchId (adjustReq None ''b1'' (Num (- 3))) = Some ''b1''"
      and v: "req_quantityChange (adjustReq None ''b1'' (Num (- 3))) = Num (- 3)"
      by (simp_all add: adjustReq_def)
    show ?thesis
      unfolding adjustStockTx_def q v p Let_def
      by (simp add: fefoDb_b1 a u c0)
  qed
  have rb: "adjustStock exampleSchema (adjustReq None ''b1'' (Num (- 3))) fefoDb =
      (\<lparr> status = 400, body = Inl StoreRefused \<rparr>, fefoDb)"
    by (simp only: adjustStock_result tx_rb) simp
  have ng: "adjustStock exampleSchema (adjustReq (Some ''i1'') ''b1'' (Str (js ''-9''))) fefoDb =
      (\<lparr> status = 400, body = Inl (Error ''Resulting quantity cannot be negative'') \<rparr>, fefoDb)"
    by (simp add: adjustStock_result adjustStockTx_def adjustReq_def fefoDb_b1 parseInt_examples n)
  have ms: "adjustStock exampleSchema (adjustReq (Some ''i1'') ''zz'' (Num (- 3))) fefoDb =
      (\<lparr> status = 400, body = Inl (Error ''Batch not found'') \<rparr>, fefoDb)"
    by (simp add: adjustStock_result adjustStockTx_def adjustReq_def z)
  let ?B = "\<lparr> batch_id = ''b1'', itemId = ''i1'', quantity = 5, expiryDate = 100,
              batchNumber = ''B-1'' \<rparr>"
  let ?R = "adjustReq (Some ''i1'') ''b1'' (Num (- 3))"
  let ?d2 = "?d1\<lparr> inventoryTransactions := inventoryTransactions ?d1 @ [?rec] \<rparr>"
  have hyp: "req_batchId ?R = Some ''b1'' \<and> findUnique fefoDb ''b1'' = Some ?B
      \<and> parseInt (toStringJS (req_quantityChange ?R)) = Fin (- 3)
      \<and> jsAdd (toNumber (quantity ?B)) (Fin (- 3)) = Fin 2 \<and> (0::int) \<le> 2
      \<and> updateQuantity exampleSchema ''b1'' (Fin 2) fefoDb = Inr ?d1
      \<and> createTransaction exampleSchema (adjustmentRecord ?R ''b1'' (- 3)) ?d1 = Inr ?d2"
    using fefoDb_b1 p a u c1 rec by (simp add: adjustReq_def del: toStringJS.simps)
  note success =
    adjustStock_all_or_nothing [of exampleSchema ?R fefoDb, THEN conjunct2, THEN conjunct2,
      THEN conjunct2, THEN conjunct1, rule_format, OF hyp]
  have sA: "adjustStock exampleSchema ?R fefoDb = (\<lparr> status = 200, body = Inr 2 \<rparr>, ?d2)"
    by (rule success [THEN conjunct1])
  have sB: "findUnique ?d2 ''b1'' = Some (?B\<lparr> quantity := 2 \<rparr>)"
    by (rule success [THEN conjunct2, THEN conjunct1])
  have sE: "inventoryTransactions ?d2 =
      inventoryTransactions fefoDb @ [adjustmentRecord ?R ''b1'' (- 3)]"
    by (rule success [THEN conjunct2, THEN conjunct2, THEN conjunct2, THEN conjunct2,
          THEN conjunct1])
  have w1: "fst (adjustStock exampleSchema ?R fefoDb) = \<lparr> status = 200, body = Inr 2 \<rparr>"
    by (simp only: sA fst_conv)
  have s2: "snd (adjustStock exampleSchema ?R fefoDb) = ?d2"
    by (simp only: sA snd_conv)
  have w2: "findUnique (snd (adjustStock exampleSchema ?R fefoDb)) ''b1'' =
      Some \<lparr> batch_id = ''b1'', itemId = ''i1'', quantity = 2, expiryDate = 100,
             batchNumber = ''B-1'' \<rparr>"
    by (simp only: s2 sB) simp
  have e0: "inventoryTransactions fefoDb = []" by (simp add: fefoDb_def)
  have w3: "inventoryTransactions (snd (adjustStock exampleSchema ?R fefoDb)) = [?rec]"
    by (simp only: s2 sE rec e0 append_Nil)
  have w4: "\<exists>d1. updateQuantity exampleSchema ''b1'' (Fin 2) fefoDb = Inr d1
          \<and> createTransaction exampleSchema
               (adjustmentRecord (adjustReq None ''b1'' (Num (- 3))) ''b1'' (- 3)) d1
              = Inl StoreRefused"
    using u c0 by blast
  have alt: "status (fst (adjustStock exampleSchema (adjustReq None ''b1'' (Num (- 3))) fefoDb)) = 200
      \<or> (status (fst (adjustStock exampleSchema (adjustReq None ''b1'' (Num (- 3))) fefoDb)) = 400
         \<and> snd (adjustStock exampleSchema (adjustReq None ''b1'' (Num (- 3))) fefoDb) = fefoDb)"
    using adjustStock_all_or_nothing [of exampleSchema "adjustReq None ''b1'' (Num (- 3))" fefoDb]
    by (rule conjunct1)
  have w5: "adjustStock exampleSchema (adjustReq None ''b1'' (Num (- 3))) fefoDb =
      (\<lparr> status = 400, body = Inl StoreRefused \<rparr>, fefoDb)"
    using alt by (simp add: adjustStock_result tx_rb)
  have w6: "jsNegative (jsAdd (toNumber 5) (parseInt (toStringJS (Str (js ''-9'')))))"
    by (simp add: parseInt_examples n)
  show ?thesis
    by (simp only: fefoDb_b1 p a w1 w2 w3 w4 w5 w6 ng z ms simp_thms)
qed

text \<open>
  When the record is refused the callback has already updated the batch: it is the
  transaction that restores the store.
\<close>

lemma adjustStockTx_partial_write:
  "adjustStockTx exampleSchema (adjustReq None ''b1'' (Num (- 3))) fefoDb =
     (Inl StoreRefused,
      fefoDb\<lparr> inventoryBatches :=
                map (\<lambda>b. if batch_id b = ''b1'' then b\<lparr> quantity := 2 \<rparr> else b)
                  (inventoryBatches fefoDb) \<rparr>)"
proof -
  let ?d1 = "fefoDb\<lparr> inventoryBatches :=
             map (\<lambda>b. if batch_id b = ''b1'' then b\<lparr> quantity := 2 \<rparr> else b)
               (inventoryBatches fefoDb) \<rparr>"
  have p: "parseInt (toStringJS (Num (- 3))) = Fin (- 3)"
    using parseInt_number [of "- 3"] by (simp only: sint_minus_three)
  have a: "jsAdd (toNumber 5) (Fin (- 3)) = Fin 2"
    by (simp add: toNumber_exact)
  have u: "updateQuantity exampleSchema ''b1'' (Fin 2) fefoDb = Inr ?d1"
    by (simp add: updateQuantity_def exampleSchema_def)
  have c0: "createTransaction exampleSchema
      (adjustmentRecord (adjustReq None ''b1'' (Num (- 3))) ''b1'' (- 3)) ?d1 = Inl StoreRefused"
    by (simp add: createTransaction_def exampleSchema_def adjustmentRecord_def adjustReq_def)
  have q: "req_batchId (adjustReq None ''b1'' (Num (- 3))) = Some ''b1''"
    and v: "req_quantityChange (adjustReq None ''b1'' (Num (- 3))) = Num (- 3)"
    by (simp_all add: adjustReq_def)
  show ?thesis
    unfolding adjustStockTx_def q v p Let_def
    by (simp add: fefoDb_b1 a u c0)
qed

section \<open>Properties of InventoryController.getExpiring\<close>

text \<open>
  C10: \<open>getExpiring\<close> asks \<open>getExpiringBatches\<close> for a window of 7 days whenever
  \<open>parseInt\<close> of the \<open>days\<close> query parameter is \<open>NaN\<close> (as it is for an absent
  parameter and for text that does not start with a number) or zero; a parameter that
  parses to any other number makes that number the window. The answer is the batches with
  status 200 when the service returns, and status 500 when it throws.
\<close>

theorem getExpiring_default_window:
  "(parseInt (toStringJS queryDays) = NaN \<or> parseInt (toStringJS queryDays) = Fin 0 \<longrightarrow>
      getExpiring zone queryDays d now later =
        expiringResponse (getExpiringBatches zone d now later (Fin 7)))
   \<and> (parseInt (toStringJS queryDays) \<noteq> NaN \<and> parseInt (toStringJS queryDays) \<noteq> Fin 0 \<longrightarrow>
      getExpiring zone queryDays d now later =
        expiringResponse
          (getExpiringBatches zone d now later (parseInt (toStringJS queryDays))))
   \<and> parseInt (toStringJS Undefined) = NaN
   \<and> expiringResponse (Inr batches) = \<lparr> status = 200, body = Inr batches \<rparr>
   \<and> expiringResponse (Inl err) = \<lparr> status = 500, body = Inl ''Failed to fetch alerts'' \<rparr>"
  by (simp add: getExpiring_def orElse_def expiringResponse_def json_def parseInt_examples)

text \<open>
  Text, an absent parameter and a zero give the window of 7 days; a no-break space before
  30 gives 30; 1000000000 is passed on and the service throws, so the answer is status 500.
\<close>

theorem getExpiring_default_window_witness:
  "parseInt (toStringJS (Str (js ''abc''))) = NaN
   \<and> getExpiring utcZone (Str (js ''abc'')) fefoDb 150 150 =
       expiringResponse (getExpiringBatches utcZone fefoDb 150 150 (Fin 7))
   \<and> getExpiring utcZone Undefined fefoDb 150 150 =
       expiringResponse (getExpiringBatches utcZone fefoDb 150 150 (Fin 7))
   \<and> parseInt (toStringJS (Str (js ''0''))) = Fin 0
   \<and> getExpiring utcZone (Str (js ''0'')) fefoDb 150 150 =
       expiringResponse (getExpiringBatches utcZone fefoDb 150 150 (Fin 7))
   \<and> parseInt (toStringJS (Str (0xA0 # js ''30''))) = Fin 30
   \<and> getExpiring utcZone (Str (0xA0 # js ''30'')) fefoDb 150 150 =
       expiringResponse (getExpiringBatches utcZone fefoDb 150 150 (Fin 30))
   \<and> parseInt (toStringJS (Str (js ''1000000000''))) = Fin 1000000000
   \<and> getExpiring utcZone (Str (js ''1000000000'')) fefoDb 150 150 =
       \<lparr> status = 500, body = Inl ''Failed to fetch alerts'' \<rparr>"
proof -
  have e: "getExpiringBatches utcZone fefoDb 150 150 (Fin 1000000000) = Inl InvalidDate"
    by (simp add: getExpiringBatches_def addDays_def utcZone_def timeClip_def msPerDay_def
        maxTime_def)
  show ?thesis
    using getExpiring_default_window [of "Str (js ''abc'')" utcZone fefoDb 150 150]
      getExpiring_default_window [of Undefined utcZone fefoDb 150 150]
      getExpiring_default_window [of "Str (js ''0'')" utcZone fefoDb 150 150]
      getExpiring_default_window [of "Str (0xA0 # js ''30'')" utcZone fefoDb 150 150]
      getExpiring_default_window [of "Str (js ''1000000000'')" utcZone fefoDb 150 150]
      e
    by (simp add: parseInt_examples)
qed

section \<open>Properties of Forecaster.predict\<close>

lemma clampDemand_nonneg: "0 \<le> clampDemand v"
  by (simp add: clampDemand_def)

text \<open>
  C4: for every sales history and horizon (and every model and moving average),
  \<open>predict\<close> returns a result whose \<open>predictedDemand\<close> is not negative; on the model
  path it is the model's value clamped at 0, on the fallback path the fallback value clamped
  at 0, by the same clamp.
\<close>

theorem predict_nonnegative:
  "0 \<le> predictedDemand (predict cfg fit average now i salesHistory horizon)
   \<and> (\<forall>v. tryModel cfg fit salesHistory horizon = Inr v \<longrightarrow>
         forecast_method (predict cfg fit average now i salesHistory horizon) = MODEL
         \<and> predictedDemand (predict cfg fit average now i salesHistory horizon) = max 0 v)
   \<and> (\<forall>e. tryModel cfg fit salesHistory horizon = Inl e \<longrightarrow>
         forecast_method (predict cfg fit average now i salesHistory horizon) = FALLBACK
         \<and> predictedDemand (predict cfg fit average now i salesHistory horizon) =
             max 0 (fallback cfg average salesHistory horizon))"
proof (intro conjI allI impI)
  show "0 \<le> predictedDemand (predict cfg fit average now i salesHistory horizon)"
    by (cases "tryModel cfg fit salesHistory horizon")
      (simp_all add: predict_def clampDemand_nonneg)
next
  fix v
  assume "tryModel cfg fit salesHistory horizon = Inr v"
  then show "forecast_method (predict cfg fit average now i salesHistory horizon) = MODEL"
    and "predictedDemand (predict cfg fit average now i salesHistory horizon) = max 0 v"
    by (simp_all add: predict_def clampDemand_def)
next
  fix e
  assume "tryModel cfg fit salesHistory horizon = Inl e"
  then show "forecast_method (predict cfg fit average now i salesHistory horizon) = FALLBACK"
    and "predictedDemand (predict cfg fit average now i salesHistory horizon) =
           max 0 (fallback cfg average salesHistory horizon)"
    by (simp_all add: predict_def clampDemand_def)
qed

text \<open>
  A model that extrapolates to -50, a fit that fails under a negative horizon, and an
  empty history.
\<close>

theorem predict_nonnegative_witness:
  "tryModel exampleConfig fallingTrend exampleHistory 14 = Inr (- 50)
   \<and> predictedDemand (predict exampleConfig fallingTrend meanSold 0 ''i1'' exampleHistory 14) = 0
   \<and> forecast_method (predict exampleConfig fallingTrend meanSold 0 ''i1'' exampleHistory 14) = MODEL
   \<and> tryModel exampleConfig failingFit exampleHistory (- 2) = Inl ModelTrainingError
   \<and> fallback exampleConfig meanSold exampleHistory (- 2) = - 12
   \<and> predictedDemand (predict exampleConfig failingFit meanSold 0 ''i1'' exampleHistory (- 2)) = 0
   \<and> forecast_method (predict exampleConfig failingFit meanSold 0 ''i1'' exampleHistory (- 2)) = FALLBACK
   \<and> tryModel exampleConfig failingFit [] 14 = Inl InsufficientDataError
   \<and> predictedDemand (predict exampleConfig failingFit meanSold 0 ''i1'' [] 14) = 14"
proof -
  have m: "tryModel exampleConfig fallingTrend exampleHistory 14 = Inr (- 50)"
    by (simp add: tryModel_def exampleConfig_def exampleHistory_def fallingTrend_def
        distinctDays_def)
  have f: "tryModel exampleConfig failingFit exampleHistory (- 2) = Inl ModelTrainingError"
    by (simp add: tryModel_def exampleConfig_def exampleHistory_def failingFit_def
        distinctDays_def)
  have e: "tryModel exampleConfig failingFit [] 14 = Inl InsufficientDataError"
    by (simp add: tryModel_def exampleConfig_def distinctDays_def)
  have fb: "fallback exampleConfig meanSold exampleHistory (- 2) = - 12"
    by (simp add: fallback_def exampleHistory_def meanSold_def)
  have fe: "fallback exampleConfig meanSold [] 14 = 14"
    by (simp add: fallback_def exampleConfig_def)
  show ?thesis
    using predict_nonnegative [of exampleConfig fallingTrend meanSold 0 "''i1''" exampleHistory 14]
      predict_nonnegative [of exampleConfig failingFit meanSold 0 "''i1''" exampleHistory "- 2"]
      predict_nonnegative [of exampleConfig failingFit meanSold 0 "''i1''" "[]" 14]
      m f e fb fe
    by simp
qed

section \<open>Properties of SupplierRanker.rank\<close>

text \<open>The order of a ranking is total and transitive, so insertion keeps a list sorted.\<close>

lemma ranksBefore_total: "\<not> ranksBefore a b \<Longrightarrow> ranksBefore b a"
  by (auto simp: ranksBefore_def)

lemma ranksBefore_trans: "ranksBefore a b \<Longrightarrow> ranksBefore b c \<Longrightarrow> ranksBefore a c"
  by (auto simp: ranksBefore_def)

lemma set_insertScore: "set (insertScore x ys) = insert x (set ys)"
  by (induction ys) auto

lemma mset_insertScore: "mset (insertScore x ys) = add_mset x (mset ys)"
  by (induction ys) auto

lemma mset_sortScores: "mset (sortScores xs) = mset xs"
  by (induction xs) (auto simp: mset_insertScore)

lemma length_sortScores: "length (sortScores xs) = length xs"
  using mset_sortScores [of xs] by (metis size_mset)

lemma sorted_insertScore:
  "sorted_wrt ranksBefore ys \<Longrightarrow> sorted_wrt ranksBefore (insertScore x ys)"
proof (induction ys)
  case Nil
  show ?case by simp
next
  case (Cons y ys)
  show ?case
  proof (cases "ranksBefore x y")
    case True
    then have "\<forall>z \<in> set ys. ranksBefore x z"
      using Cons.prems by (auto intro: ranksBefore_trans)
    then show ?thesis using True Cons.prems by simp
  next
    case False
    then have "ranksBefore y x" by (rule ranksBefore_total)
    then show ?thesis
      using False Cons by (auto simp: set_insertScore)
  qed
qed

lemma sorted_sortScores: "sorted_wrt ranksBefore (sortScores xs)"
  by (induction xs) (auto intro: sorted_insertScore)

text \<open>Numbering a ranking changes neither its length, its suppliers nor its order.\<close>

lemma length_assignRanks: "length (assignRanks n xs) = length xs"
  by (induction xs arbitrary: n) auto

lemma positions_assignRanks: "map rankPosition (assignRanks n xs) = [n..<n + length xs]"
  by (induction xs arbitrary: n) (auto simp: upt_rec)

lemma ids_assignRanks: "map score_supplierId (assignRanks n xs) = map score_supplierId xs"
  by (induction xs arbitrary: n) auto

lemma ranksBefore_position:
  "ranksBefore (a\<lparr> rankPosition := n \<rparr>) (b\<lparr> rankPosition := m \<rparr>) = ranksBefore a b"
  by (simp add: ranksBefore_def)

lemma set_assignRanks:
  "y \<in> set (assignRanks n xs) \<Longrightarrow> \<exists>x \<in> set xs. \<exists>k. y = x\<lparr> rankPosition := k \<rparr>"
  by (induction xs arbitrary: n) auto

lemma sorted_assignRanks:
  "sorted_wrt ranksBefore xs \<Longrightarrow> sorted_wrt ranksBefore (assignRanks n xs)"
proof (induction xs arbitrary: n)
  case Nil
  show ?case by simp
next
  case (Cons x xs)
  have "ranksBefore (x\<lparr> rankPosition := n \<rparr>) y" if "y \<in> set (assignRanks (Suc n) xs)" for y
  proof -
    from that obtain z k where "z \<in> set xs" and "y = z\<lparr> rankPosition := k \<rparr>"
      using set_assignRanks by blast
    then show ?thesis using Cons.prems by (simp add: ranksBefore_position)
  qed
  then show ?case using Cons by simp
qed

lemma ids_scoreSupplier:
  "map score_supplierId (map (scoreSupplier trained ruleScore u) cs) = map supplierId cs"
  by (induction cs) (auto simp: scoreSupplier_def split: option.splits)

text \<open>
  C5: \<open>rank\<close> signals \<open>NoSuppliersFound\<close> exactly when the candidate set is empty. For
  every non-empty candidate set it returns a ranking with one entry per candidate (the
  same supplier ids), whose ranks are 1, 2, ..., n in this order, sorted by descending
  score with equal scores in ascending order of supplier id.
\<close>

theorem rank_ranking:
  "(rank trained ruleScore cs u = Inl NoSuppliersFound \<longleftrightarrow> cs = [])
   \<and> (cs \<noteq> [] \<longrightarrow>
        (\<exists>r. rank trained ruleScore cs u = Inr r
           \<and> length r = length cs
           \<and> map rankPosition r = [1..<Suc (length cs)]
           \<and> sorted_wrt ranksBefore r
           \<and> mset (map score_supplierId r) = mset (map supplierId cs)))"
proof -
  let ?scored = "map (scoreSupplier trained ruleScore u) cs"
  let ?r = "assignRanks 1 (sortScores ?scored)"
  have len: "length ?r = length cs"
    by (simp add: length_assignRanks length_sortScores)
  have pos: "map rankPosition ?r = [1..<Suc (length cs)]"
    by (simp add: positions_assignRanks length_sortScores)
  have srt: "sorted_wrt ranksBefore ?r"
    by (intro sorted_assignRanks sorted_sortScores)
  have "mset (map score_supplierId ?r) = mset (map score_supplierId (sortScores ?scored))"
    by (simp add: ids_assignRanks)
  also have "\<dots> = image_mset score_supplierId (mset (sortScores ?scored))"
    by (simp only: mset_map)
  also have "\<dots> = image_mset score_supplierId (mset ?scored)"
    by (simp only: mset_sortScores)
  also have "\<dots> = mset (map score_supplierId ?scored)"
    by (simp only: mset_map)
  also have "\<dots> = mset (map supplierId cs)"
    by (simp only: ids_scoreSupplier)
  finally have ids: "mset (map score_supplierId ?r) = mset (map supplierId cs)" .
  have e: "rank trained ruleScore cs u = Inl NoSuppliersFound \<longleftrightarrow> cs = []"
    by (simp add: rank_def)
  have "cs \<noteq> [] \<longrightarrow> rank trained ruleScore cs u = Inr ?r"
    by (simp add: rank_def)
  then show ?thesis using e len pos srt ids by blast
qed

theorem rank_ranking_witness:
  "rank None reliabilityRule [] NORMAL = Inl NoSuppliersFound
   \<and> exampleSuppliers \<noteq> []
   \<and> rank None reliabilityRule exampleSuppliers URGENT =
       Inr [\<lparr> score_supplierId = ''s3'', score = 8, score_method = RULE_BASED, rankPosition = 1 \<rparr>,
            \<lparr> score_supplierId = ''s1'', score = 5, score_method = RULE_BASED, rankPosition = 2 \<rparr>,
            \<lparr> score_supplierId = ''s2'', score = 5, score_method = RULE_BASED, rankPosition = 3 \<rparr>]"
  using rank_ranking [of None reliabilityRule "[]" NORMAL]
    rank_ranking [of None reliabilityRule exampleSuppliers URGENT]
  by (simp add: rank_def exampleSuppliers_def scoreSupplier_def reliabilityRule_def
      ranksBefore_def)

section \<open>Properties of the stuck-task rule\<close>

text \<open>The decisions of type \<open>STUCK_TASK\<close> are those of the stuck-task rule.\<close>

lemma stuck_filter:
  "filter (\<lambda>d. decision_type d = STUCK_TASK) (stuckTaskDecisions m now tasks) =
     stuckTaskDecisions m now tasks"
  by (simp add: stuckTaskDecisions_def filter_map comp_def)

lemma bottleneck_filter:
  "filter (\<lambda>d. decision_type d = STUCK_TASK) (bottleneckDecisions ms det hist now tasks) = []"
  by (induction tasks) (auto simp: bottleneckDecisions_def split: option.splits)

text \<open>
  C6: with the multiplier 2, whatever the minimum sample size, the detector and the task
  history, the \<open>STUCK_TASK\<close> decisions of an evaluation are the decisions of urgency
  \<open>URGENT\<close> for the tasks in progress whose elapsed time has reached twice their
  expected duration; a task in progress is flagged exactly when it has, so a task at
  exactly twice its expected duration is flagged.
\<close>

theorem stuck_task_rule:
  "filter (\<lambda>d. decision_type d = STUCK_TASK)
       (evaluateTasks 2 minSampleSize detector history now activeTasks) =
     map (\<lambda>t. \<lparr> decision_type = STUCK_TASK, decision_urgency = URGENT, payload = t,
                 createdAt = now \<rparr>)
       (filter (\<lambda>t. task_status t = ''in progress''
                   \<and> 2 * expectedDurationMinutes t * 60000 \<le> now - startedAt t) activeTasks)
   \<and> (t \<in> set activeTasks \<and> task_status t = ''in progress'' \<longrightarrow>
        (\<lparr> decision_type = STUCK_TASK, decision_urgency = URGENT, payload = t,
            createdAt = now \<rparr>
           \<in> set (evaluateTasks 2 minSampleSize detector history now activeTasks)
         \<longleftrightarrow> 2 * expectedDurationMinutes t * 60000 \<le> now - startedAt t))"
proof -
  let ?mk = "\<lambda>t. \<lparr> decision_type = STUCK_TASK, decision_urgency = URGENT, payload = t,
                 createdAt = now \<rparr>"
  let ?ev = "evaluateTasks 2 minSampleSize detector history now activeTasks"
  have f: "filter (\<lambda>d. decision_type d = STUCK_TASK) ?ev = stuckTaskDecisions 2 now activeTasks"
    by (simp add: evaluateTasks_def stuck_filter bottleneck_filter)
  have s: "stuckTaskDecisions 2 now activeTasks =
     map ?mk (filter (\<lambda>t. task_status t = ''in progress''
                   \<and> 2 * expectedDurationMinutes t * 60000 \<le> now - startedAt t) activeTasks)"
    by (simp add: stuckTaskDecisions_def isStuck_def [abs_def] msPerMinute_def)
  have "?mk t \<in> set ?ev \<longleftrightarrow> ?mk t \<in> set (filter (\<lambda>d. decision_type d = STUCK_TASK) ?ev)"
    by simp
  also have "\<dots> \<longleftrightarrow> t \<in> set activeTasks \<and> task_status t = ''in progress''
                   \<and> 2 * expectedDurationMinutes t * 60000 \<le> now - startedAt t"
    by (simp only: f s) auto
  finally show ?thesis using f s by auto
qed

text \<open>
  A task expected to take 30 minutes is flagged at 60 minutes (3600000 ms) and not one
  millisecond earlier, with an empty history below the minimum sample size.
\<close>

theorem stuck_task_rule_witness:
  "exampleTask \<in> set [exampleTask] \<and> task_status exampleTask = ''in progress''
   \<and> \<lparr> decision_type = STUCK_TASK, decision_urgency = URGENT, payload = exampleTask,
        createdAt = 3600000 \<rparr>
       \<in> set (evaluateTasks 2 100 (\<lambda>h t. None) [] 3600000 [exampleTask])
   \<and> \<lparr> decision_type = STUCK_TASK, decision_urgency = URGENT, payload = exampleTask,
        createdAt = 3599999 \<rparr>
       \<notin> set (evaluateTasks 2 100 (\<lambda>h t. None) [] 3599999 [exampleTask])"
  using stuck_task_rule [of 100 "\<lambda>h t. None" "[]" 3600000 "[exampleTask]" exampleTask]
    stuck_task_rule [of 100 "\<lambda>h t. None" "[]" 3599999 "[exampleTask]" exampleTask]
  by (simp add: exampleTask_def)

end
